theory Spec2Isabelle
  imports Complex_Main
begin

section \<open>The benchmark script \<^verbatim>\<open>examples/inference/bench_llama.py\<close>\<close>

text \<open>
  The script measures an external inference engine. Its own code is a statistics routine
  (\<^verbatim>\<open>print_perf_stats\<close>), a driver (\<^verbatim>\<open>run_llama_test\<close>) and an argument parser
  declaration. Python's \<^verbatim>\<open>int\<close> is modelled as \<open>int\<close>. Python's \<^verbatim>\<open>float\<close> is modelled
  as \<open>real\<close>: every statement below is about exact arithmetic, the rounding of IEEE
  doubles is not part of the model. What \<^verbatim>\<open>print\<close> writes is recorded as the value
  handed to the format string, not as the formatted text.
\<close>

subsection \<open>Exceptions and values\<close>

datatype py_error =
    ZeroDivisionError
  | AttributeError string
  | UnboundLocalError string
  | AddressAlreadyInUse
  | ExternalError string

text \<open>A model configuration object: the attributes it has, by name.\<close>

type_synonym config = "string \<rightharpoonup> int"

text \<open>The lines the script writes to standard output, with the value that is formatted.\<close>

datatype out_line =
    AvgPerTokenLatency real
  | AvgBW real
  | AvgFlops real
  | GenerationTime real
  | Outputs int
  | ProfilerTable

subsection \<open>Python primitives used by the script\<close>

text \<open>\<^verbatim>\<open>xs[start:]\<close>: a negative start counts from the end, and the start is clamped
  to the list.\<close>

definition py_slice_from :: "'a list \<Rightarrow> int \<Rightarrow> 'a list" where
  "py_slice_from xs start =
     (let n = int (length xs);
          lo = (if start < 0 then max (n + start) 0 else min start n)
      in drop (nat lo) xs)"

text \<open>\<^verbatim>\<open>a / b\<close> on numbers: true division, raising on a zero divisor.\<close>

definition py_truediv :: "real \<Rightarrow> real \<Rightarrow> py_error + real" where
  "py_truediv a b = (if b = 0 then Inl ZeroDivisionError else Inr (a / b))"

text \<open>\<^verbatim>\<open>obj.name\<close>: raises when the attribute is missing.\<close>

definition getattr :: "config \<Rightarrow> string \<Rightarrow> py_error + int" where
  "getattr obj name = (case obj name of None \<Rightarrow> Inl (AttributeError name) | Some v \<Rightarrow> Inr v)"

text \<open>\<^verbatim>\<open>getattr(obj, name, default)\<close>, the default already evaluated by the caller.\<close>

definition getattr_default :: "config \<Rightarrow> string \<Rightarrow> int \<Rightarrow> int" where
  "getattr_default obj name dflt = (case obj name of None \<Rightarrow> dflt | Some v \<Rightarrow> v)"

subsection \<open>\<^verbatim>\<open>print_perf_stats\<close>\<close>

text \<open>
  The function returns the lines it printed and the exception it raised, if any.
  Line 27 evaluates \<^verbatim>\<open>config.num_hidden_layers\<close> before \<^verbatim>\<open>getattr\<close> is called, so a
  missing \<^verbatim>\<open>num_hidden_layers\<close> raises even when \<^verbatim>\<open>num_layers\<close> is there. Line 32 raises
  on a zero average after line 31 has printed.
\<close>

definition warmup_default :: int where
  "warmup_default = 3"

text \<open>Lines 26 to 33: the statistics of the post-warmup samples, \<open>count\<close> of them.\<close>

definition perf_lines ::
  "real list \<Rightarrow> nat \<Rightarrow> config \<Rightarrow> int \<Rightarrow> out_line list \<times> py_error option" where
  "perf_lines latency_set count config bs =
     (case py_truediv (sum_list latency_set) (real count) of
        Inl e \<Rightarrow> ([], Some e)
      | Inr avg \<Rightarrow>
         (case getattr config ''num_hidden_layers'' of
            Inl e \<Rightarrow> ([], Some e)
          | Inr dflt \<Rightarrow>
             (let num_layers = getattr_default config ''num_layers'' dflt
              in case getattr config ''hidden_size'' of
                   Inl e \<Rightarrow> ([], Some e)
                 | Inr hidden_size \<Rightarrow>
                    (let num_parameters = num_layers * hidden_size * hidden_size * 12;
                         num_bytes = (2::int);
                         line1 = AvgPerTokenLatency (avg * 1000)
                     in case py_truediv 1 avg of
                          Inl e \<Rightarrow> ([line1], Some e)
                        | Inr inv_avg \<Rightarrow>
                           ([line1,
                             AvgBW (inv_avg * of_int num_parameters * of_int num_bytes
                                      / 1000000000),
                             AvgFlops (inv_avg * of_int num_parameters * of_int num_bytes
                                         * of_int bs / 1000000000000)],
                            None)))))"

definition print_perf_stats ::
  "real list \<Rightarrow> config \<Rightarrow> int \<Rightarrow> int \<Rightarrow> out_line list \<times> py_error option" where
  "print_perf_stats latency_set config bs warmup =
     (let latency_set = py_slice_from latency_set warmup;
          count = length latency_set
      in if count > 0 then
           (let latency_set = sort latency_set
            in perf_lines latency_set count config bs)
         else ([], None))"

text \<open>For comparison: the arithmetic mean of a list.\<close>

definition arithmetic_mean :: "real list \<Rightarrow> real" where
  "arithmetic_mean xs = sum_list xs / real (length xs)"

text \<open>For comparison: the layer count as the claim words it, \<^verbatim>\<open>num_layers\<close> if the
  configuration has it, else \<^verbatim>\<open>num_hidden_layers\<close>.\<close>

definition num_layers_of :: "config \<Rightarrow> int option" where
  "num_layers_of config =
     (case config ''num_layers'' of Some v \<Rightarrow> Some v | None \<Rightarrow> config ''num_hidden_layers'')"

text \<open>A configuration to run the routine on.\<close>

definition small_config :: config where
  "small_config = [''num_hidden_layers'' \<mapsto> 2, ''hidden_size'' \<mapsto> 4]"

text \<open>Two more: one names its layers \<^verbatim>\<open>num_layers\<close> and has no \<^verbatim>\<open>num_hidden_layers\<close>, one
  has both attributes.\<close>

definition layers_only_config :: config where
  "layers_only_config = [''num_layers'' \<mapsto> 2, ''hidden_size'' \<mapsto> 4]"

definition both_layers_config :: config where
  "both_layers_config =
     [''num_layers'' \<mapsto> 3, ''num_hidden_layers'' \<mapsto> 2, ''hidden_size'' \<mapsto> 4]"

subsection \<open>The driver's state and its external calls\<close>

text \<open>
  The calls the driver makes into libraries, in the order it makes them. \<open>Profile\<close> and
  \<open>Record_function\<close> open the two \<^verbatim>\<open>with\<close> blocks of lines 73 and 74; neither manager
  catches an exception of its block.
\<close>

datatype event =
    Disable_existing_loggers
  | Launch nat nat int
  | Tokenizer_from_pretrained string
  | Model_from_pretrained string
  | Model_half
  | ShardConfig_init bool
  | TPInferEngine_init int int int
  | Randint int int
  | Ones int int
  | Synchronize
  | TimeRead
  | Generate
  | Profile
  | Record_function
  | Key_averages_table

text \<open>
  What the libraries answer is the environment of a run: whether the call made as the
  \<open>k\<close>-th event raises, the \<open>k\<close>-th reading of \<^verbatim>\<open>time.time()\<close>, the shape of the tensor
  the \<open>k\<close>-th \<^verbatim>\<open>generate\<close> returns, and the configuration of the loaded model.
  \<^verbatim>\<open>time.time()\<close> and \<^verbatim>\<open>print\<close> do not raise.
\<close>

record env =
  fails :: "nat \<Rightarrow> py_error option"
  clock :: "nat \<Rightarrow> real"
  out_shape :: "nat \<Rightarrow> int \<times> int"
  model_config :: config

text \<open>The state of a run: the calls made, the lines printed, how often the clock was
  read and \<^verbatim>\<open>generate\<close> called, and the locals \<^verbatim>\<open>times\<close> and \<^verbatim>\<open>outputs\<close> of
  \<^verbatim>\<open>run_llama_test\<close> (\<open>None\<close>: not yet bound).\<close>

record state =
  trace :: "event list"
  stdout :: "out_line list"
  ticks :: nat
  gens :: nat
  times :: "real list"
  outputs :: "(int \<times> int) option"

definition init_state :: state where
  "init_state = \<lparr>trace = [], stdout = [], ticks = 0, gens = 0, times = [], outputs = None\<rparr>"

type_synonym 'a prog = "state \<Rightarrow> (py_error + 'a) \<times> state"

definition ret :: "'a \<Rightarrow> 'a prog" where
  "ret x s = (Inr x, s)"

definition raise :: "py_error \<Rightarrow> 'a prog" where
  "raise e s = (Inl e, s)"

text \<open>One statement after another: an exception ends the sequence, there is no handler.\<close>

definition seq :: "'a prog \<Rightarrow> ('a \<Rightarrow> 'b prog) \<Rightarrow> 'b prog" where
  "seq m f s = (case m s of (Inl e, s') \<Rightarrow> (Inl e, s') | (Inr x, s') \<Rightarrow> f x s')"

definition ext :: "env \<Rightarrow> event \<Rightarrow> unit prog" where
  "ext E ev s =
     (let s' = s\<lparr>trace := trace s @ [ev]\<rparr>
      in case fails E (length (trace s)) of Some e \<Rightarrow> (Inl e, s') | None \<Rightarrow> (Inr (), s'))"

definition synchronize :: "env \<Rightarrow> unit prog" where
  "synchronize E = ext E Synchronize"

definition time_time :: "env \<Rightarrow> real prog" where
  "time_time E s = (Inr (clock E (ticks s)), s\<lparr>trace := trace s @ [TimeRead], ticks := Suc (ticks s)\<rparr>)"

definition generate :: "env \<Rightarrow> (int \<times> int) prog" where
  "generate E s =
     (let s' = s\<lparr>trace := trace s @ [Generate], gens := Suc (gens s)\<rparr>
      in case fails E (length (trace s)) of
           Some e \<Rightarrow> (Inl e, s')
         | None \<Rightarrow> (Inr (out_shape E (gens s)), s'))"

definition print :: "out_line \<Rightarrow> unit prog" where
  "print l s = (Inr (), s\<lparr>stdout := stdout s @ [l]\<rparr>)"

text \<open>A call of \<^verbatim>\<open>print_perf_stats\<close> inside the driver: its lines reach standard output,
  its exception is the driver's.\<close>

definition call_print_perf_stats :: "real list \<Rightarrow> config \<Rightarrow> int \<Rightarrow> int \<Rightarrow> unit prog" where
  "call_print_perf_stats latency_set config bs warmup s =
     (case print_perf_stats latency_set config bs warmup of
        (ls, r) \<Rightarrow>
          (case r of Some e \<Rightarrow> Inl e | None \<Rightarrow> Inr (), s\<lparr>stdout := stdout s @ ls\<rparr>))"

subsection \<open>\<^verbatim>\<open>run_llama_test\<close>\<close>

record args =
  path :: string
  tp_size :: int
  batch_size :: int
  input_len :: int
  output_len :: int

text \<open>Lines 61 to 68, the body of the timing loop. \<open>endt\<close> is the local \<^verbatim>\<open>end\<close>.\<close>

definition timed_iteration :: "env \<Rightarrow> int \<Rightarrow> unit prog" where
  "timed_iteration E max_input_len =
     seq (synchronize E) (\<lambda>_.
     seq (time_time E) (\<lambda>start.
     seq (generate E) (\<lambda>out.
     seq (\<lambda>s. (Inr (), s\<lparr>outputs := Some out\<rparr>)) (\<lambda>_.
     seq (synchronize E) (\<lambda>_.
     seq (time_time E) (\<lambda>endt.
     (let out_len = snd out in
     seq (print (GenerationTime (endt - start))) (\<lambda>_.
     (case py_truediv (endt - start) (of_int (out_len - max_input_len)) of
        Inl e \<Rightarrow> raise e
      | Inr sample \<Rightarrow> (\<lambda>s. (Inr (), s\<lparr>times := times s @ [sample]\<rparr>)))))))))))"

text \<open>\<^verbatim>\<open>for i in range(n): body\<close>, the body not reading \<^verbatim>\<open>i\<close>.\<close>

fun for_range :: "nat \<Rightarrow> unit prog \<Rightarrow> unit prog" where
  "for_range 0 body = ret ()"
| "for_range (Suc n) body = seq body (\<lambda>_. for_range n body)"

definition iters :: nat where
  "iters = 10"

definition run_llama_test :: "env \<Rightarrow> args \<Rightarrow> unit prog" where
  "run_llama_test E a =
     (let llama_model_path = path a;
          max_batch_size = batch_size a;
          max_input_len = input_len a;
          max_output_len = output_len a
      in
     seq (ext E (Tokenizer_from_pretrained llama_model_path)) (\<lambda>_.
     seq (ext E (Model_from_pretrained llama_model_path)) (\<lambda>_.
     seq (ext E Model_half) (\<lambda>_.
     (let config = model_config E in
     seq (ext E (ShardConfig_init (tp_size a > 1))) (\<lambda>_.
     seq (ext E (TPInferEngine_init max_batch_size max_input_len max_output_len)) (\<lambda>_.
     seq (ext E (Randint max_batch_size max_input_len)) (\<lambda>_.
     seq (ext E (Ones max_batch_size max_input_len)) (\<lambda>_.
     seq (\<lambda>s. (Inr (), s\<lparr>times := []\<rparr>)) (\<lambda>_.
     seq (for_range iters (timed_iteration E max_input_len)) (\<lambda>_.
     seq (\<lambda>s. case outputs s of
                 None \<Rightarrow> raise (UnboundLocalError ''outputs'') s
               | Some out \<Rightarrow> print (Outputs (fst out)) s) (\<lambda>_.
     seq (\<lambda>s. call_print_perf_stats (times s) config max_batch_size warmup_default s) (\<lambda>_.
     seq (ext E Profile) (\<lambda>_.
     seq (ext E Record_function) (\<lambda>_.
     seq (synchronize E) (\<lambda>_.
     seq (generate E) (\<lambda>out.
     seq (\<lambda>s. (Inr (), s\<lparr>outputs := Some out\<rparr>)) (\<lambda>_.
     seq (synchronize E) (\<lambda>_.
     seq (ext E Key_averages_table) (\<lambda>_.
     print ProfilerTable))))))))))))))))))))"

subsection \<open>\<^verbatim>\<open>check_llama\<close> and \<^verbatim>\<open>test_llama\<close>\<close>

text \<open>Lines 81 to 84, run by every worker process with its rank.\<close>

definition check_llama :: "env \<Rightarrow> nat \<Rightarrow> nat \<Rightarrow> int \<Rightarrow> args \<Rightarrow> unit prog" where
  "check_llama E rank world_size port a =
     seq (ext E Disable_existing_loggers) (\<lambda>_.
     seq (ext E (Launch rank world_size port)) (\<lambda>_.
     run_llama_test E a))"

text \<open>
  Modelled from the spec: \<^verbatim>\<open>spawn\<close> of \<^verbatim>\<open>colossalai.testing\<close> is not among the sources. The
  spec has it start the worker processes and wait for their completion, every worker
  running the same function on its own. Here each of the \<open>nprocs\<close> workers runs from
  the initial state, the states the workers end in are returned, and what the first
  worker that raised has raised is raised again.
\<close>

definition spawn ::
  "(nat \<Rightarrow> nat \<Rightarrow> int \<Rightarrow> unit prog) \<Rightarrow> nat \<Rightarrow> int \<Rightarrow> (py_error + unit) \<times> state list" where
  "spawn func nprocs port =
     (let rs = map (\<lambda>rank. func rank nprocs port init_state) [0..<nprocs]
      in (case List.find (\<lambda>r. isl (fst r)) rs of
            Some (Inl e, _) \<Rightarrow> Inl e
          | _ \<Rightarrow> Inr (),
          map snd rs))"

text \<open>
  Modelled from the spec: \<^verbatim>\<open>clear_cache_before_run\<close> of \<^verbatim>\<open>colossalai.testing\<close> is not among
  the sources, and the spec gives it no part in the handling of errors: the decorated
  function runs as it is.
\<close>

definition clear_cache_before_run :: "'a \<Rightarrow> 'a" where
  "clear_cache_before_run f = f"

text \<open>
  Modelled from the spec: \<^verbatim>\<open>rerun_if_address_is_in_use\<close> of \<^verbatim>\<open>colossalai.testing\<close> is not
  among the sources. The spec has it restart the whole test if a network address is
  already in use, and names no bound on the restarts. \<open>attempt k\<close> is what the \<open>k\<close>-th
  run of the decorated function does; the result is \<open>None\<close> when every run ends with the
  address in use.
\<close>

partial_function (option) rerun_if_address_is_in_use ::
  "(nat \<Rightarrow> (py_error + unit) \<times> 's) \<Rightarrow> nat \<Rightarrow> ((py_error + unit) \<times> 's) option" where
  "rerun_if_address_is_in_use attempt k =
     (if fst (attempt k) = Inl AddressAlreadyInUse
      then rerun_if_address_is_in_use attempt (Suc k)
      else Some (attempt k))"

text \<open>Line 90, the body of \<^verbatim>\<open>test_llama\<close>: \<open>Es rank\<close> is the environment of the worker
  \<open>rank\<close>, \<open>port\<close> the port \<^verbatim>\<open>spawn\<close> hands to the workers.\<close>

definition test_llama_body ::
  "(nat \<Rightarrow> env) \<Rightarrow> int \<Rightarrow> args \<Rightarrow> (py_error + unit) \<times> state list" where
  "test_llama_body Es port a =
     spawn (\<lambda>rank world_size port. check_llama (Es rank) rank world_size port a)
           (nat (tp_size a)) port"

text \<open>Lines 87 to 89, the decorated function: \<open>Es k\<close> and \<open>ports k\<close> are the environments
  and the port of the \<open>k\<close>-th run of the body.\<close>

definition test_llama ::
  "(nat \<Rightarrow> nat \<Rightarrow> env) \<Rightarrow> (nat \<Rightarrow> int) \<Rightarrow> args \<Rightarrow> ((py_error + unit) \<times> state list) option" where
  "test_llama Es ports a =
     rerun_if_address_is_in_use
       (\<lambda>k. clear_cache_before_run (test_llama_body (Es k) (ports k) a)) 0"

text \<open>
  Line 103, the last statement of the script: \<^verbatim>\<open>test_llama(args)\<close> is called at module
  level. An exception that leaves the call has no frame left to go to: the process ends
  with it. \<open>None\<close>: the test is restarted without end.
\<close>

datatype process_end = Exit_normally | Uncaught_exception py_error

definition script_main ::
  "(nat \<Rightarrow> nat \<Rightarrow> env) \<Rightarrow> (nat \<Rightarrow> int) \<Rightarrow> args \<Rightarrow> process_end option" where
  "script_main Es ports a =
     (case test_llama Es ports a of
        None \<Rightarrow> None
      | Some (Inl e, _) \<Rightarrow> Some (Uncaught_exception e)
      | Some (Inr _, _) \<Rightarrow> Some Exit_normally)"

text \<open>
  Where an exception of a run comes from: the script's own arithmetic and lookups
  (lines 27, 28, 32, 68 and 70), or the library call made last. \<open>calls_ok E s t\<close>: the
  run from \<open>s\<close> to \<open>t\<close> has only added calls, and none of the added calls has raised.
\<close>

definition own_exception :: "py_error \<Rightarrow> bool" where
  "own_exception e \<longleftrightarrow>
     e = ZeroDivisionError \<or> e = UnboundLocalError ''outputs''
     \<or> e = AttributeError ''num_hidden_layers'' \<or> e = AttributeError ''hidden_size''"

definition raised_by_last_call :: "env \<Rightarrow> state \<Rightarrow> py_error \<Rightarrow> bool" where
  "raised_by_last_call E t e \<longleftrightarrow>
     trace t \<noteq> [] \<and> last (trace t) \<noteq> TimeRead \<and> fails E (length (trace t) - 1) = Some e"

definition calls_ok :: "env \<Rightarrow> state \<Rightarrow> state \<Rightarrow> bool" where
  "calls_ok E s t \<longleftrightarrow>
     length (trace s) \<le> length (trace t) \<and> take (length (trace s)) (trace t) = trace s
     \<and> (\<forall>j. length (trace s) \<le> j \<and> j < length (trace t) \<and> trace t ! j \<noteq> TimeRead
            \<longrightarrow> fails E j = None)"

subsection \<open>The command line (lines 93 to 101)\<close>

text \<open>
  The script declares its arguments to \<^verbatim>\<open>argparse\<close>; the declaration is the script's, the
  parsing is the standard library's. An argument is recorded with the keywords of its
  \<^verbatim>\<open>add_argument\<close> call, \<open>dest\<close> being the name \<^verbatim>\<open>argparse\<close> derives from the first long
  option string.
\<close>

datatype "value" = VStr string | VInt int

datatype arg_type = Type_str | Type_int

record argument =
  option_strings :: "string list"
  dest :: string
  arg_type :: arg_type
  dflt :: "value option"
  required :: bool
  help_text :: string

definition parser :: "argument list" where
  "parser =
     [\<lparr>option_strings = [''-p'', ''--path''], dest = ''path'', arg_type = Type_str,
       dflt = None, required = True, help_text = ''Model path''\<rparr>,
      \<lparr>option_strings = [''-tp'', ''--tp_size''], dest = ''tp_size'', arg_type = Type_int,
       dflt = Some (VInt 1), required = False, help_text = ''Tensor parallel size''\<rparr>,
      \<lparr>option_strings = [''-b'', ''--batch_size''], dest = ''batch_size'', arg_type = Type_int,
       dflt = Some (VInt 16), required = False, help_text = ''Maximum batch size''\<rparr>,
      \<lparr>option_strings = [''--input_len''], dest = ''input_len'', arg_type = Type_int,
       dflt = Some (VInt 1024), required = False, help_text = ''Maximum input length''\<rparr>,
      \<lparr>option_strings = [''--output_len''], dest = ''output_len'', arg_type = Type_int,
       dflt = Some (VInt 128), required = False, help_text = ''Maximum output length''\<rparr>]"

text \<open>
  What \<^verbatim>\<open>parse_args\<close> does with an argument vector, as the library documents it for
  arguments that take one value each. Two things are the library's own and are taken as
  parameters: how a token of the vector is read (\<open>classify\<close>: as one of the declared
  option strings, spelled out, abbreviated or with its value attached; as the help
  flag; as a plain value; or as nothing the parser knows), and the conversion \<^verbatim>\<open>int\<close> of
  a string (\<open>int_of\<close>, \<open>None\<close> when it raises). A vector is rejected, or help is printed,
  by leaving the process (\<open>SystemExit\<close>); the order in which several faults of one vector
  are reported is not modelled.
\<close>

datatype token_class = Flag string "string option" | Help_flag | Plain | Not_recognized

datatype parse_result = SystemExit | Namespace "string \<rightharpoonup> value"

definition store ::
  "(string \<Rightarrow> int option) \<Rightarrow> argument list \<Rightarrow> string \<Rightarrow> string \<Rightarrow> (string \<times> value) option" where
  "store int_of ps opt v =
     (case List.find (\<lambda>a. opt \<in> set (option_strings a)) ps of
        None \<Rightarrow> None
      | Some a \<Rightarrow>
         (case arg_type a of
            Type_str \<Rightarrow> Some (dest a, VStr v)
          | Type_int \<Rightarrow> (case int_of v of None \<Rightarrow> None | Some i \<Rightarrow> Some (dest a, VInt i))))"

fun consume ::
  "(string \<Rightarrow> token_class) \<Rightarrow> (string \<Rightarrow> int option) \<Rightarrow> argument list \<Rightarrow> string list
     \<Rightarrow> (string \<rightharpoonup> value) \<Rightarrow> (string \<rightharpoonup> value) option" where
  "consume classify int_of ps [] seen = Some seen"
| "consume classify int_of ps (t # ts) seen =
     (case classify t of
        Flag opt (Some v) \<Rightarrow>
          (case store int_of ps opt v of
             None \<Rightarrow> None
           | Some (d, x) \<Rightarrow> consume classify int_of ps ts (seen(d \<mapsto> x)))
      | Flag opt None \<Rightarrow>
          (case ts of
             [] \<Rightarrow> None
           | v # ts' \<Rightarrow>
               if classify v = Plain
               then (case store int_of ps opt v of
                       None \<Rightarrow> None
                     | Some (d, x) \<Rightarrow> consume classify int_of ps ts' (seen(d \<mapsto> x)))
               else None)
      | Help_flag \<Rightarrow> None
      | Plain \<Rightarrow> None
      | Not_recognized \<Rightarrow> None)"

definition parse_args ::
  "(string \<Rightarrow> token_class) \<Rightarrow> (string \<Rightarrow> int option) \<Rightarrow> argument list \<Rightarrow> string list
     \<Rightarrow> parse_result" where
  "parse_args classify int_of ps argv =
     (case consume classify int_of ps argv Map.empty of
        None \<Rightarrow> SystemExit
      | Some seen \<Rightarrow>
          if list_ex (\<lambda>a. required a \<and> seen (dest a) = None) ps then SystemExit
          else Namespace (\<lambda>d. case seen d of
                                Some x \<Rightarrow> Some x
                              | None \<Rightarrow> (case List.find (\<lambda>a. dest a = d) ps of
                                           None \<Rightarrow> None
                                         | Some a \<Rightarrow> dflt a)))"

text \<open>A well-formed use of a declared option: a token read as one of its option strings
  with no value attached, then a plain token that the type of the option accepts.\<close>

definition well_formed_pair ::
  "(string \<Rightarrow> token_class) \<Rightarrow> (string \<Rightarrow> int option) \<Rightarrow> argument list \<Rightarrow> string \<times> string \<Rightarrow> bool" where
  "well_formed_pair classify int_of ps fv \<longleftrightarrow>
     (case classify (fst fv) of
        Flag opt None \<Rightarrow> classify (snd fv) = Plain \<and> store int_of ps opt (snd fv) \<noteq> None
      | _ \<Rightarrow> False)"

definition tokens_of :: "(string \<times> string) list \<Rightarrow> string list" where
  "tokens_of pairs = concat (map (\<lambda>fv. [fst fv, snd fv]) pairs)"

text \<open>A reading of tokens to evaluate the parser on: the option strings as declared, any
  token not starting with a dash as a plain value, and the conversion of two numerals.\<close>

definition exact_classify :: "string \<Rightarrow> token_class" where
  "exact_classify t =
     (if list_ex (\<lambda>a. t \<in> set (option_strings a)) parser then Flag t None
      else if t = ''-h'' \<or> t = ''--help'' then Help_flag
      else if take 1 t = ''-'' then Not_recognized
      else Plain)"

definition small_int_of :: "string \<Rightarrow> int option" where
  "small_int_of v = (if v = ''4'' then Some 4 else if v = ''512'' then Some 512 else None)"

subsection \<open>The calls of a run, and a run to evaluate\<close>

text \<open>The calls of one pass through the timing loop, of the set-up (lines 42 to 54) and
  of the profiled block (lines 73 to 78), in the order of the source.\<close>

definition iteration_events :: "event list" where
  "iteration_events = [Synchronize, TimeRead, Generate, Synchronize, TimeRead]"

definition setup_events :: "args \<Rightarrow> event list" where
  "setup_events a =
     [Tokenizer_from_pretrained (path a), Model_from_pretrained (path a), Model_half,
      ShardConfig_init (tp_size a > 1),
      TPInferEngine_init (batch_size a) (input_len a) (output_len a),
      Randint (batch_size a) (input_len a), Ones (batch_size a) (input_len a)]"

definition profiled_events :: "event list" where
  "profiled_events =
     [Profile, Record_function, Synchronize, Generate, Synchronize, Key_averages_table]"

text \<open>A run to evaluate: nothing raises, the clock advances by one second per reading,
  every \<^verbatim>\<open>generate\<close> returns 16 rows of 1152 tokens for 1024 tokens of input.\<close>

definition example_env :: env where
  "example_env = \<lparr>fails = (\<lambda>_. None), clock = (\<lambda>k. real k),
                   out_shape = (\<lambda>_. (16, 1152)), model_config = small_config\<rparr>"

definition example_args :: args where
  "example_args = \<lparr>path = ''llama'', tp_size = 1, batch_size = 16, input_len = 1024,
                    output_len = 128\<rparr>"

text \<open>Two more environments: the launch finds its address in use, and the model path
  names no model.\<close>

definition address_in_use_env :: env where
  "address_in_use_env =
     \<lparr>fails = (\<lambda>k. if k = 1 then Some AddressAlreadyInUse else None), clock = (\<lambda>k. real k),
      out_shape = (\<lambda>_. (16, 1152)), model_config = small_config\<rparr>"

definition bad_path_env :: env where
  "bad_path_env =
     \<lparr>fails = (\<lambda>k. if k = 2 then Some (ExternalError ''no model at this path'') else None),
      clock = (\<lambda>k. real k), out_shape = (\<lambda>_. (16, 1152)), model_config = small_config\<rparr>"

text \<open>And one whose model has the configuration without \<^verbatim>\<open>num_hidden_layers\<close>.\<close>

definition layers_only_env :: env where
  "layers_only_env =
     \<lparr>fails = (\<lambda>_. None), clock = (\<lambda>k. real k), out_shape = (\<lambda>_. (16, 1152)),
      model_config = layers_only_config\<rparr>"

text \<open>\<open>faults_end_run E s r t\<close>: a run from \<open>s\<close> to \<open>t\<close> with the result \<open>r\<close> has only added
  calls, and a call it made that raised is the last thing it did, the result being the
  exception of that call. \<open>propagating E m\<close>: every run of \<open>m\<close> is such a run, and what
  \<open>m\<close> raises is an exception of the script's own or that of the library call made
  last.\<close>

definition faults_end_run :: "env \<Rightarrow> state \<Rightarrow> py_error + 'a \<Rightarrow> state \<Rightarrow> bool" where
  "faults_end_run E s r t \<longleftrightarrow>
     length (trace s) \<le> length (trace t) \<and> take (length (trace s)) (trace t) = trace s
     \<and> (\<forall>j e. length (trace s) \<le> j \<and> j < length (trace t) \<and> trace t ! j \<noteq> TimeRead
              \<and> fails E j = Some e
            \<longrightarrow> Suc j = length (trace t) \<and> r = Inl e)"

definition propagating :: "env \<Rightarrow> 'a prog \<Rightarrow> bool" where
  "propagating E m \<longleftrightarrow>
     (\<forall>s r t. m s = (r, t) \<longrightarrow>
        faults_end_run E s r t
      \<and> (\<forall>e. r = Inl e \<longrightarrow> own_exception e \<or> raised_by_last_call E t e))"

section \<open>Properties of \<^verbatim>\<open>print_perf_stats\<close>\<close>

lemma py_slice_from_nonneg: "0 \<le> w \<Longrightarrow> py_slice_from xs w = drop (nat w) xs"
  by (simp add: py_slice_from_def Let_def min_def)

lemma py_slice_from_short: "int (length xs) \<le> w \<Longrightarrow> py_slice_from xs w = []"
  by (simp add: py_slice_from_def Let_def min_def)

lemma sum_list_insort: "sum_list (insort x xs) = x + sum_list (xs :: real list)"
  by (induction xs) auto

lemma sum_list_sort: "sum_list (sort xs) = sum_list (xs :: real list)"
  by (induction xs) (auto simp: sum_list_insort)

text \<open>In exact arithmetic the sort of line 25 does not change the sum. On IEEE doubles
  the sum depends on the order in which the samples are added; that is not part of this
  model, which therefore says nothing about what the sort does to the printed digits.\<close>

lemma perf_lines_sort: "perf_lines (sort ys) n cfg bs = perf_lines ys n cfg bs"
  by (simp add: perf_lines_def sum_list_sort)

text \<open>What lines 26 to 33 do, case by case.\<close>

lemma perf_lines_eq:
  "count \<noteq> 0 \<Longrightarrow> perf_lines ys count cfg bs =
     (case cfg ''num_hidden_layers'' of
        None \<Rightarrow> ([], Some (AttributeError ''num_hidden_layers''))
      | Some d \<Rightarrow>
        (case cfg ''hidden_size'' of
          None \<Rightarrow> ([], Some (AttributeError ''hidden_size''))
        | Some h \<Rightarrow>
          (let avg = sum_list ys / real count;
               P = (case cfg ''num_layers'' of None \<Rightarrow> d | Some v \<Rightarrow> v) * h * h * 12
           in if avg = 0 then ([AvgPerTokenLatency (avg * 1000)], Some ZeroDivisionError)
              else ([AvgPerTokenLatency (avg * 1000),
                     AvgBW (1 / avg * of_int P * 2 / 1000000000),
                     AvgFlops (1 / avg * of_int P * 2 * of_int bs / 1000000000000)], None))))"
  by (auto simp: perf_lines_def Let_def py_truediv_def getattr_def getattr_default_def
      split: option.splits)

lemma print_perf_stats_eq:
  "print_perf_stats xs cfg bs w =
     (let ys = py_slice_from xs w in
      if ys = [] then ([], None) else perf_lines ys (length ys) cfg bs)"
  by (simp add: print_perf_stats_def Let_def perf_lines_sort)

text \<open>
  C7. A latency list no longer than \<open>warmup\<close> leaves no post-warmup sample: the routine
  prints nothing and raises nothing, the division by \<open>count\<close> is not reached.
\<close>

theorem no_division_without_samples:
  assumes "int (length latency_set) \<le> warmup"
  shows "py_slice_from latency_set warmup = []
       \<and> print_perf_stats latency_set config bs warmup = ([], None)"
  using assms by (simp add: print_perf_stats_def py_slice_from_short)

theorem no_division_without_samples_witness:
  "int (length [0.5, 0.25 :: real]) \<le> 3
   \<and> print_perf_stats [0.5, 0.25] small_config 16 3 = ([], None)"
  using no_division_without_samples [of "[0.5, 0.25]" 3 small_config 16] by simp

text \<open>The result of the routine, case by case, in the order the source decides.\<close>

lemma pps_cases:
  "print_perf_stats xs cfg bs w =
     (if py_slice_from xs w = [] then ([], None)
      else if cfg ''num_hidden_layers'' = None then ([], Some (AttributeError ''num_hidden_layers''))
      else if cfg ''hidden_size'' = None then ([], Some (AttributeError ''hidden_size''))
      else if sum_list (py_slice_from xs w) = 0
        then ([AvgPerTokenLatency 0], Some ZeroDivisionError)
      else ([AvgPerTokenLatency (arithmetic_mean (py_slice_from xs w) * 1000),
             AvgBW (of_int (the (num_layers_of cfg) * the (cfg ''hidden_size'') * the (cfg ''hidden_size'') * 12) * 2
                     / arithmetic_mean (py_slice_from xs w) / 1000000000),
             AvgFlops (of_int (the (num_layers_of cfg) * the (cfg ''hidden_size'') * the (cfg ''hidden_size'') * 12) * 2
                     * of_int bs / arithmetic_mean (py_slice_from xs w) / 1000000000000)], None))"
  by (auto simp: print_perf_stats_eq perf_lines_eq Let_def num_layers_of_def arithmetic_mean_def
      split: option.splits)

lemma mean_zero_iff: "ys \<noteq> [] \<Longrightarrow> arithmetic_mean ys = 0 \<longleftrightarrow> sum_list ys = 0"
  by (simp add: arithmetic_mean_def)

lemma pps_depends_on_slice:
  "py_slice_from xs w = py_slice_from ys w \<Longrightarrow>
   print_perf_stats xs cfg bs w = print_perf_stats ys cfg bs w"
  by (simp add: print_perf_stats_eq)

lemma pps_latency_line:
  "AvgPerTokenLatency v \<in> set (fst (print_perf_stats xs cfg bs w)) \<Longrightarrow>
   v = arithmetic_mean (py_slice_from xs w) * 1000"
  by (simp add: pps_cases mean_zero_iff split: if_splits)

lemma pps_first_line:
  "py_slice_from xs w \<noteq> [] \<Longrightarrow> cfg ''num_hidden_layers'' \<noteq> None \<Longrightarrow>
   cfg ''hidden_size'' \<noteq> None \<Longrightarrow>
   hd (fst (print_perf_stats xs cfg bs w))
     = AvgPerTokenLatency (arithmetic_mean (py_slice_from xs w) * 1000)"
  by (auto simp: pps_cases mean_zero_iff)

text \<open>
  C1, amended. For \<open>warmup \<ge> 0\<close> the routine keeps the list without its first \<open>warmup\<close>
  samples, in the given order (all samples are dropped when there are fewer). What it
  prints depends only on the samples kept: two lists that agree after their first
  \<open>warmup\<close> samples give the same result. A printed latency is the sum of the samples
  kept, divided by their number, times 1000; it is the first line printed whenever a
  sample is kept and the configuration has both attributes.
\<close>

theorem warmup_prefix_discarded:
  assumes "0 \<le> warmup"
  shows "py_slice_from latency_set warmup = drop (nat warmup) latency_set
       \<and> take (nat warmup) latency_set @ py_slice_from latency_set warmup = latency_set
       \<and> (\<forall>other. drop (nat warmup) other = drop (nat warmup) latency_set \<longrightarrow>
             print_perf_stats other config bs warmup
               = print_perf_stats latency_set config bs warmup)
       \<and> (\<forall>v. AvgPerTokenLatency v \<in> set (fst (print_perf_stats latency_set config bs warmup)) \<longrightarrow>
             v = sum_list (drop (nat warmup) latency_set)
                   / real (length (drop (nat warmup) latency_set)) * 1000)
       \<and> (drop (nat warmup) latency_set \<noteq> [] \<and> config ''num_hidden_layers'' \<noteq> None
            \<and> config ''hidden_size'' \<noteq> None \<longrightarrow>
             hd (fst (print_perf_stats latency_set config bs warmup))
               = AvgPerTokenLatency (sum_list (drop (nat warmup) latency_set)
                   / real (length (drop (nat warmup) latency_set)) * 1000))"
proof -
  have sl: "py_slice_from xs warmup = drop (nat warmup) xs" for xs :: "real list"
    using assms by (rule py_slice_from_nonneg)
  have a: "take (nat warmup) latency_set @ py_slice_from latency_set warmup = latency_set"
    by (simp add: sl)
  have b: "print_perf_stats other config bs warmup = print_perf_stats latency_set config bs warmup"
    if "drop (nat warmup) other = drop (nat warmup) latency_set" for other
    using that by (intro pps_depends_on_slice) (simp add: sl)
  have c: "v = sum_list (drop (nat warmup) latency_set)
                   / real (length (drop (nat warmup) latency_set)) * 1000"
    if "AvgPerTokenLatency v \<in> set (fst (print_perf_stats latency_set config bs warmup))" for v
    using pps_latency_line [OF that] by (simp only: sl arithmetic_mean_def)
  have d: "hd (fst (print_perf_stats latency_set config bs warmup))
               = AvgPerTokenLatency (sum_list (drop (nat warmup) latency_set)
                   / real (length (drop (nat warmup) latency_set)) * 1000)"
    if "drop (nat warmup) latency_set \<noteq> []" "config ''num_hidden_layers'' \<noteq> None"
       "config ''hidden_size'' \<noteq> None"
    using pps_first_line [of latency_set warmup config bs] that
    by (simp add: sl arithmetic_mean_def)
  from sl a b c d show ?thesis by blast
qed

lemma slice_ex1: "py_slice_from [9, 9, 9, 1, 2, 3 :: real] 3 = [1, 2, 3]"
  by (simp add: py_slice_from_def)

lemma cfg_nhl: "small_config ''num_hidden_layers'' = Some 2"
  by (simp add: small_config_def)

lemma cfg_hs: "small_config ''hidden_size'' = Some 4"
  by (simp add: small_config_def)

lemma cfg_nl: "small_config ''num_layers'' = None"
  by (simp add: small_config_def)

lemma cfg_layers: "num_layers_of small_config = Some 2"
  by (simp add: num_layers_of_def cfg_nl cfg_nhl)

lemma pps_ex1:
  "print_perf_stats [9, 9, 9, 1, 2, 3] small_config 1 3
     = ([AvgPerTokenLatency 2000, AvgBW (3 / 7812500), AvgFlops (3 / 7812500000)], None)"
  by (simp add: pps_cases slice_ex1 cfg_nhl cfg_hs cfg_layers arithmetic_mean_def)

lemma pps_ex2:
  "print_perf_stats [7, 8, 7, 1, 2, 3] small_config 1 3
     = ([AvgPerTokenLatency 2000, AvgBW (3 / 7812500), AvgFlops (3 / 7812500000)], None)"
proof -
  have "py_slice_from [7, 8, 7, 1, 2, 3 :: real] 3 = [1, 2, 3]"
    by (simp add: py_slice_from_def)
  then show ?thesis
    by (simp add: pps_cases cfg_nhl cfg_hs cfg_layers arithmetic_mean_def)
qed

text \<open>The amended C1 at \<open>warmup = 3\<close> and six samples.\<close>

theorem warmup_prefix_discarded_witness:
  "(0::int) \<le> 3
   \<and> py_slice_from [9, 9, 9, 1, 2, 3 :: real] 3 = drop (nat 3) [9, 9, 9, 1, 2, 3]
   \<and> print_perf_stats [7, 8, 7, 1, 2, 3] small_config 1 3
       = print_perf_stats [9, 9, 9, 1, 2, 3] small_config 1 3
   \<and> hd (fst (print_perf_stats [9, 9, 9, 1, 2, 3] small_config 1 3)) = AvgPerTokenLatency 2000"
proof -
  have h: "(0::int) \<le> 3" by simp
  note w = warmup_prefix_discarded [OF h, of "[9, 9, 9, 1, 2, 3]" small_config 1]
  from w have "py_slice_from [9, 9, 9, 1, 2, 3 :: real] 3 = drop (nat 3) [9, 9, 9, 1, 2, 3]"
    by (rule conjunct1)
  then show ?thesis using h by (simp add: pps_ex1 pps_ex2)
qed

text \<open>
  C1 as stated, for every \<open>warmup\<close>: at \<open>warmup = -1\<close> and the samples \<open>1, 2, 3\<close> line 21
  keeps the last sample only. Two samples are discarded, not the first \<open>warmup\<close> ones,
  and the printed average is that of \<open>[3]\<close>.
\<close>

theorem negative_warmup_counterexample:
  "py_slice_from [1, 2, 3 :: real] (- 1) = [3]
   \<and> py_slice_from [1, 2, 3 :: real] (- 1) \<noteq> drop (nat (- 1)) [1, 2, 3]
   \<and> int (length [1, 2, 3 :: real]) - int (length (py_slice_from [1, 2, 3 :: real] (- 1))) \<noteq> - 1
   \<and> fst (print_perf_stats [1, 2, 3] small_config 1 (- 1))
        = [AvgPerTokenLatency 3000, AvgBW (1 / 3906250), AvgFlops (1 / 3906250000)]"
proof -
  have s: "py_slice_from [1, 2, 3 :: real] (- 1) = [3]"
    by (simp add: py_slice_from_def)
  have p: "fst (print_perf_stats [1, 2, 3] small_config 1 (- 1))
        = [AvgPerTokenLatency 3000, AvgBW (1 / 3906250), AvgFlops (1 / 3906250000)]"
    by (simp add: pps_cases s cfg_nhl cfg_hs cfg_layers arithmetic_mean_def)
  show ?thesis using p by (simp add: s)
qed

lemma num_layers_of_defined:
  "config ''num_hidden_layers'' \<noteq> None \<Longrightarrow> \<exists>n. num_layers_of config = Some n"
  by (auto simp: num_layers_of_def split: option.splits)

lemma layers_only_nhl: "layers_only_config ''num_hidden_layers'' = None"
  by (simp add: layers_only_config_def)

lemma layers_only_nl: "layers_only_config ''num_layers'' = Some 2"
  by (simp add: layers_only_config_def)

lemma layers_only_hs: "layers_only_config ''hidden_size'' = Some 4"
  by (simp add: layers_only_config_def)

lemma mean_ex1: "arithmetic_mean (py_slice_from [9, 9, 9, 1, 2, 3 :: real] 3) = 2"
  by (simp add: slice_ex1 arithmetic_mean_def)

text \<open>
  For a configuration that has \<^verbatim>\<open>num_hidden_layers\<close> and \<^verbatim>\<open>hidden_size\<close>, a sample kept and
  a mean that is not zero, the routine prints three lines, and the bandwidth is
  \<open>parameters * 2 / avg / 10\<^sup>9\<close> with the layer count of \<^verbatim>\<open>num_layers\<close> if the configuration
  has it and of \<^verbatim>\<open>num_hidden_layers\<close> otherwise.
\<close>

lemma bandwidth_with_default_present:
  assumes "py_slice_from latency_set warmup \<noteq> []"
    and "arithmetic_mean (py_slice_from latency_set warmup) \<noteq> 0"
    and "config ''num_hidden_layers'' = Some d"
    and "config ''hidden_size'' = Some hidden_size"
  shows "\<exists>num_layers lat fl.
           num_layers_of config = Some num_layers
         \<and> print_perf_stats latency_set config bs warmup
             = ([AvgPerTokenLatency lat,
                 AvgBW (of_int (num_layers * hidden_size * hidden_size * 12) * 2
                          / arithmetic_mean (py_slice_from latency_set warmup) / 1000000000),
                 AvgFlops fl], None)"
proof -
  from assms(3) have h1: "config ''num_hidden_layers'' \<noteq> None" by simp
  from num_layers_of_defined [of config, OF h1]
  obtain n where n: "num_layers_of config = Some n" by blast
  from assms(1,2) have z: "sum_list (py_slice_from latency_set warmup) \<noteq> 0"
    by (simp add: mean_zero_iff)
  have "print_perf_stats latency_set config bs warmup
             = ([AvgPerTokenLatency (arithmetic_mean (py_slice_from latency_set warmup) * 1000),
                 AvgBW (of_int (n * hidden_size * hidden_size * 12) * 2
                          / arithmetic_mean (py_slice_from latency_set warmup) / 1000000000),
                 AvgFlops (of_int (n * hidden_size * hidden_size * 12) * 2 * of_int bs
                          / arithmetic_mean (py_slice_from latency_set warmup) / 1000000000000)],
                None)"
    using assms(1,3,4) z n by (simp add: pps_cases)
  with n show ?thesis by blast
qed

lemma pps_both_layers:
  "print_perf_stats [9, 9, 9, 1, 2, 3] both_layers_config 1 3
     = ([AvgPerTokenLatency 2000, AvgBW (of_int (3 * 4 * 4 * 12) * 2 / 2 / 1000000000),
         AvgFlops (of_int (3 * 4 * 4 * 12) * 2 * 1 / 2 / 1000000000000)], None)"
proof -
  have n: "num_layers_of both_layers_config = Some 3"
    by (simp add: num_layers_of_def both_layers_config_def)
  have d: "both_layers_config ''num_hidden_layers'' = Some 2"
    by (simp add: both_layers_config_def)
  have h: "both_layers_config ''hidden_size'' = Some 4"
    by (simp add: both_layers_config_def)
  show ?thesis
    by (simp add: pps_cases slice_ex1 n d h arithmetic_mean_def)
qed

text \<open>
  C2, at a configuration that names its layers \<^verbatim>\<open>num_layers\<close> and has no
  \<^verbatim>\<open>num_hidden_layers\<close>. Three samples are kept and their mean is 2; the layer count the
  claim takes is that of \<^verbatim>\<open>num_layers\<close>, 2, and \<^verbatim>\<open>hidden_size\<close> is 4, so that the bandwidth
  claimed is \<open>2 * 4 * 4 * 12 * 2 / 2 / 10\<^sup>9\<close>. Line 27 evaluates the default
  \<^verbatim>\<open>config.num_hidden_layers\<close> before it looks for \<^verbatim>\<open>num_layers\<close>: the routine raises
  \<^verbatim>\<open>AttributeError\<close> and prints no bandwidth at all.
\<close>

theorem layer_count_default_is_evaluated_first:
  "layers_only_config ''num_layers'' = Some 2
   \<and> layers_only_config ''hidden_size'' = Some 4
   \<and> num_layers_of layers_only_config = Some 2
   \<and> py_slice_from [9, 9, 9, 1, 2, 3 :: real] 3 = [1, 2, 3]
   \<and> arithmetic_mean (py_slice_from [9, 9, 9, 1, 2, 3 :: real] 3) = 2
   \<and> print_perf_stats [9, 9, 9, 1, 2, 3] layers_only_config 1 3
       = ([], Some (AttributeError ''num_hidden_layers''))"
proof -
  have n: "num_layers_of layers_only_config = Some 2"
    by (simp add: num_layers_of_def layers_only_nl)
  have p: "print_perf_stats [9, 9, 9, 1, 2, 3] layers_only_config 1 3
       = ([], Some (AttributeError ''num_hidden_layers''))"
    by (simp add: pps_cases slice_ex1 layers_only_nhl)
  from layers_only_nl layers_only_hs n slice_ex1 mean_ex1 p show ?thesis
    by blast
qed




section \<open>Properties of \<^verbatim>\<open>run_llama_test\<close>\<close>

lemma seq_InrD:
  "seq m f s = (Inr y, t) \<Longrightarrow> \<exists>x u. m s = (Inr x, u) \<and> f x u = (Inr y, t)"
  by (auto simp: seq_def split: prod.splits sum.splits)

lemma seq_Inr: "m s = (Inr x, u) \<Longrightarrow> seq m f s = f x u"
  by (simp add: seq_def)

lemma seq_Inl: "m s = (Inl e, u) \<Longrightarrow> seq m f s = (Inl e, u)"
  by (simp add: seq_def)

lemma ext_InrD:
  "ext E ev s = (Inr x, t) \<Longrightarrow>
   t = s\<lparr>trace := trace s @ [ev]\<rparr> \<and> fails E (length (trace s)) = None"
  by (auto simp: ext_def Let_def split: option.splits)

lemma generate_InrD:
  "generate E s = (Inr x, t) \<Longrightarrow>
   t = s\<lparr>trace := trace s @ [Generate], gens := Suc (gens s)\<rparr>
   \<and> x = out_shape E (gens s) \<and> fails E (length (trace s)) = None"
  by (auto simp: generate_def Let_def split: option.splits)

lemma timed_iteration_InrD:
  assumes "timed_iteration E m s = (Inr x, t)"
  shows "t = s\<lparr>trace := trace s @ iteration_events,
              stdout := stdout s @ [GenerationTime (clock E (Suc (ticks s)) - clock E (ticks s))],
              ticks := Suc (Suc (ticks s)),
              gens := Suc (gens s),
              times := times s @ [(clock E (Suc (ticks s)) - clock E (ticks s))
                                   / of_int (snd (out_shape E (gens s)) - m)],
              outputs := Some (out_shape E (gens s))\<rparr>
       \<and> snd (out_shape E (gens s)) \<noteq> m"
  using assms
  by (auto simp: timed_iteration_def seq_def synchronize_def ext_def generate_def time_time_def
      print_def raise_def py_truediv_def Let_def iteration_events_def
      split: option.splits if_splits)

lemma replicate_concat_snoc:
  "concat (replicate n xs) @ xs = xs @ concat (replicate n xs)"
  by (induction n) simp_all

lemma for_range_InrD:
  "for_range n (timed_iteration E m) s = (Inr x, t) \<Longrightarrow>
     trace t = trace s @ concat (replicate n iteration_events)
   \<and> length (times t) = length (times s) + n
   \<and> gens t = gens s + n
   \<and> ticks t = ticks s + 2 * n
   \<and> (0 < n \<longrightarrow> outputs t \<noteq> None)"
proof (induction n arbitrary: s)
  case 0
  then show ?case by (simp add: ret_def)
next
  case (Suc n)
  from Suc.prems obtain u where
    u: "timed_iteration E m s = (Inr (), u)" and
    r: "for_range n (timed_iteration E m) u = (Inr x, t)"
    by (auto dest!: seq_InrD)
  note a = timed_iteration_InrD [OF u]
  note b = Suc.IH [OF r]
  have o: "outputs t \<noteq> None"
  proof (cases n)
    case 0
    with r have "t = u" by (simp add: ret_def)
    with a show ?thesis by simp
  next
    case (Suc k)
    with b show ?thesis by simp
  qed
  from a b o show ?case by simp
qed

lemma run_llama_test_InrD:
  assumes "run_llama_test E a s = (Inr x, t)"
  shows "trace t = trace s @ setup_events a @ concat (replicate iters iteration_events)
                     @ profiled_events
       \<and> gens t = gens s + iters + 1
       \<and> length (times t) = iters"
  using assms unfolding run_llama_test_def Let_def
  by (auto dest!: seq_InrD ext_InrD generate_InrD for_range_InrD
      simp: synchronize_def print_def raise_def call_print_perf_stats_def
            setup_events_def profiled_events_def
      split: option.splits prod.splits)

lemma ext_ok:
  "fails E (length (trace s)) = None \<Longrightarrow> ext E ev s = (Inr (), s\<lparr>trace := trace s @ [ev]\<rparr>)"
  by (simp add: ext_def)

lemma generate_ok:
  "fails E (length (trace s)) = None \<Longrightarrow>
   generate E s = (Inr (out_shape E (gens s)),
                   s\<lparr>trace := trace s @ [Generate], gens := Suc (gens s)\<rparr>)"
  by (simp add: generate_def)

lemma timed_iteration_ok:
  assumes "\<forall>k. fails E k = None" and "snd (out_shape E (gens s)) \<noteq> m"
  shows "timed_iteration E m s =
    (Inr (), s\<lparr>trace := trace s @ iteration_events,
              stdout := stdout s @ [GenerationTime (clock E (Suc (ticks s)) - clock E (ticks s))],
              ticks := Suc (Suc (ticks s)),
              gens := Suc (gens s),
              times := times s @ [(clock E (Suc (ticks s)) - clock E (ticks s))
                                   / of_int (snd (out_shape E (gens s)) - m)],
              outputs := Some (out_shape E (gens s))\<rparr>)"
  using assms
  by (simp add: timed_iteration_def seq_def synchronize_def ext_def generate_def time_time_def
      print_def raise_def py_truediv_def Let_def iteration_events_def)

lemma example_iteration:
  "timed_iteration example_env 1024 s =
    (Inr (), s\<lparr>trace := trace s @ iteration_events,
              stdout := stdout s @ [GenerationTime 1],
              ticks := Suc (Suc (ticks s)),
              gens := Suc (gens s),
              times := times s @ [1 / 128],
              outputs := Some (16, 1152)\<rparr>)"
proof -
  have a: "\<forall>k. fails example_env k = None" by (simp add: example_env_def)
  have b: "snd (out_shape example_env (gens s)) \<noteq> 1024" by (simp add: example_env_def)
  show ?thesis
    unfolding timed_iteration_ok [OF a b] by (simp add: example_env_def)
qed

lemma example_loop:
  "\<exists>t. for_range n (timed_iteration example_env 1024) s = (Inr (), t)
       \<and> times t = times s @ replicate n (1 / 128)
       \<and> (0 < n \<longrightarrow> outputs t = Some (16, 1152))"
proof (induction n arbitrary: s)
  case 0
  show ?case by (simp add: ret_def)
next
  case (Suc n)
  let ?u = "s\<lparr>trace := trace s @ iteration_events,
              stdout := stdout s @ [GenerationTime 1],
              ticks := Suc (Suc (ticks s)),
              gens := Suc (gens s),
              times := times s @ [1 / 128],
              outputs := Some (16, 1152)\<rparr>"
  from Suc.IH [of ?u] obtain t where
    t: "for_range n (timed_iteration example_env 1024) ?u = (Inr (), t)"
    and tt: "times t = times ?u @ replicate n (1 / 128)"
    and to: "0 < n \<longrightarrow> outputs t = Some (16, 1152)"
    by blast
  have r: "for_range (Suc n) (timed_iteration example_env 1024) s = (Inr (), t)"
    by (simp add: seq_Inr [OF example_iteration] t)
  have o: "outputs t = Some (16, 1152)"
  proof (cases n)
    case 0
    with t have "t = ?u" by (simp add: ret_def)
    then show ?thesis by simp
  next
    case (Suc k)
    with to show ?thesis by simp
  qed
  from r tt o show ?case by (simp add: replicate_app_Cons_same)
qed

lemma example_loop_eq:
  "for_range n (timed_iteration example_env 1024) s =
     (Inr (), s\<lparr>trace := trace s @ concat (replicate n iteration_events),
               stdout := stdout s @ replicate n (GenerationTime 1),
               ticks := ticks s + 2 * n,
               gens := gens s + n,
               times := times s @ replicate n (1 / 128),
               outputs := (if n = 0 then outputs s else Some (16, 1152))\<rparr>)"
proof (induction n arbitrary: s)
  case 0
  show ?case by (simp add: ret_def)
next
  case (Suc n)
  show ?case
    by (simp add: seq_Inr [OF example_iteration] Suc.IH replicate_app_Cons_same)
qed

lemma example_samples:
  "print_perf_stats (replicate iters (1 / 128)) small_config 16 warmup_default
     = ([AvgPerTokenLatency (125 / 16), AvgBW (98304 / 1000000000),
         AvgFlops (98304 * 16 / 1000000000000)], None)"
proof -
  have s: "py_slice_from (replicate iters (1 / 128 :: real)) warmup_default
             = replicate 7 (1 / 128)"
    by (simp add: py_slice_from_def iters_def warmup_default_def)
  have m: "arithmetic_mean (replicate 7 (1 / 128 :: real)) = 1 / 128"
    by (simp add: arithmetic_mean_def eval_nat_numeral)
  have z: "sum_list (replicate 7 (1 / 128 :: real)) \<noteq> 0"
    by (simp add: eval_nat_numeral)
  have e: "replicate 7 (1 / 128 :: real) \<noteq> []"
    by (simp add: eval_nat_numeral)
  show ?thesis
    by (simp add: pps_cases s m z e cfg_nhl cfg_hs cfg_layers)
qed

lemma example_fails: "fails example_env k = None"
  by (simp add: example_env_def)

lemma example_config: "model_config example_env = small_config"
  by (simp add: example_env_def)

lemma example_out_shape: "out_shape example_env k = (16, 1152)"
  by (simp add: example_env_def)

lemma example_input_len: "input_len example_args = 1024"
  by (simp add: example_args_def)

lemma example_batch_size: "batch_size example_args = 16"
  by (simp add: example_args_def)

lemma iters_nonzero: "iters \<noteq> 0"
  by (simp add: iters_def)

lemma example_run:
  "run_llama_test example_env example_args init_state =
     (Inr (),
      \<lparr>trace = setup_events example_args @ concat (replicate iters iteration_events)
                 @ profiled_events,
       stdout = replicate iters (GenerationTime 1)
                 @ [Outputs 16, AvgPerTokenLatency (125 / 16), AvgBW (98304 / 1000000000),
                    AvgFlops (98304 * 16 / 1000000000000), ProfilerTable],
       ticks = 2 * iters, gens = Suc iters,
       times = replicate iters (1 / 128), outputs = Some (16, 1152)\<rparr>)"
  by (simp add: run_llama_test_def Let_def seq_def ext_def generate_def synchronize_def
      print_def call_print_perf_stats_def example_fails example_config example_out_shape
      example_input_len example_batch_size example_loop_eq example_samples
      setup_events_def profiled_events_def init_state_def iters_nonzero)

lemma count_list_concat_replicate:
  "count_list (concat (replicate n xs)) x = n * count_list xs x"
  by (induction n) simp_all

lemma count_generate_iteration: "count_list iteration_events Generate = 1"
  by (simp add: iteration_events_def)

lemma count_generate_profiled: "count_list profiled_events Generate = 1"
  by (simp add: profiled_events_def)

lemma count_generate_setup: "count_list (setup_events a) Generate = 0"
  by (simp add: setup_events_def)

text \<open>
  C5. A run that returns without raising has made the set-up calls, then ten passes of
  the timing loop, each with one \<^verbatim>\<open>generate\<close> call, then one more \<^verbatim>\<open>generate\<close> call inside
  the profiler block: eleven in all. Every pass that completes appends one sample to
  \<^verbatim>\<open>times\<close>, which holds ten samples at the end.
\<close>

theorem fixed_number_of_generate_calls:
  assumes "run_llama_test E a s = (Inr (), t)"
  shows "trace t = trace s @ setup_events a @ concat (replicate 10 iteration_events)
                     @ profiled_events
       \<and> count_list (setup_events a) Generate = 0
       \<and> count_list (concat (replicate 10 iteration_events)) Generate = 10
       \<and> count_list profiled_events Generate = 1
       \<and> count_list (trace t) Generate = count_list (trace s) Generate + 11
       \<and> length (times t) = 10
       \<and> (\<forall>u v. timed_iteration E (input_len a) u = (Inr (), v) \<longrightarrow>
             (\<exists>sample. times v = times u @ [sample])
           \<and> count_list (trace v) Generate = count_list (trace u) Generate + 1)"
proof -
  note r = run_llama_test_InrD [OF assms]
  from r have tr: "trace t = trace s @ setup_events a
      @ concat (replicate 10 iteration_events) @ profiled_events"
    by (simp add: iters_def)
  from r have len: "length (times t) = 10"
    by (simp add: iters_def)
  have c: "count_list (concat (replicate 10 iteration_events)) Generate = 10"
    by (simp add: count_list_concat_replicate count_generate_iteration)
  have total: "count_list (trace t) Generate = count_list (trace s) Generate + 11"
    by (simp add: tr c count_generate_profiled count_generate_setup)
  have it: "(\<exists>sample. times v = times u @ [sample])
           \<and> count_list (trace v) Generate = count_list (trace u) Generate + 1"
    if "timed_iteration E (input_len a) u = (Inr (), v)" for u v
    using timed_iteration_InrD [OF that] by (simp add: count_generate_iteration)
  from tr c total len it count_generate_profiled count_generate_setup
  show ?thesis by blast
qed

text \<open>C5 on the run of the example environment.\<close>

theorem fixed_number_of_generate_calls_witness:
  "fst (run_llama_test example_env example_args init_state) = Inr ()
   \<and> count_list (trace (snd (run_llama_test example_env example_args init_state))) Generate = 11
   \<and> length (times (snd (run_llama_test example_env example_args init_state))) = 10"
proof -
  have h: "run_llama_test example_env example_args init_state
             = (Inr (), snd (run_llama_test example_env example_args init_state))"
    by (simp add: example_run)
  have ok: "fst (run_llama_test example_env example_args init_state) = Inr ()"
    by (simp add: example_run)
  from fixed_number_of_generate_calls [OF h] ok show ?thesis
    by (simp add: init_state_def)
qed

lemma timed_iteration_zero_division:
  assumes "\<forall>k. fails E k = None" and "snd (out_shape E (gens s)) = m"
  shows "timed_iteration E m s =
    (Inl ZeroDivisionError,
     s\<lparr>trace := trace s @ iteration_events,
       stdout := stdout s @ [GenerationTime (clock E (Suc (ticks s)) - clock E (ticks s))],
       ticks := Suc (Suc (ticks s)),
       gens := Suc (gens s),
       outputs := Some (out_shape E (gens s))\<rparr>)"
  using assms
  by (simp add: timed_iteration_def seq_def synchronize_def ext_def generate_def time_time_def
      print_def raise_def py_truediv_def Let_def iteration_events_def)

text \<open>
  C6. A pass of the timing loop that completes appends
  \<open>(end - start) / (out_len - max_input_len)\<close>, \<open>start\<close> and \<open>end\<close> the two clock readings
  of the pass and \<open>out_len\<close> the second dimension of what \<^verbatim>\<open>generate\<close> returned, and then
  \<open>out_len \<noteq> max_input_len\<close>. When no library call raises, the pass raises
  \<^verbatim>\<open>ZeroDivisionError\<close> and appends nothing if \<open>out_len = max_input_len\<close>, and completes
  otherwise.
\<close>

theorem latency_sample_per_token:
  "(timed_iteration E max_input_len s = (Inr (), t) \<longrightarrow>
      times t = times s @ [(clock E (Suc (ticks s)) - clock E (ticks s))
                            / of_int (snd (out_shape E (gens s)) - max_input_len)]
    \<and> snd (out_shape E (gens s)) \<noteq> max_input_len)
   \<and> ((\<forall>k. fails E k = None) \<and> snd (out_shape E (gens s)) = max_input_len \<longrightarrow>
        fst (timed_iteration E max_input_len s) = Inl ZeroDivisionError
      \<and> times (snd (timed_iteration E max_input_len s)) = times s)
   \<and> ((\<forall>k. fails E k = None) \<and> snd (out_shape E (gens s)) \<noteq> max_input_len \<longrightarrow>
        fst (timed_iteration E max_input_len s) = Inr ())"
proof -
  have a: "times t = times s @ [(clock E (Suc (ticks s)) - clock E (ticks s))
                            / of_int (snd (out_shape E (gens s)) - max_input_len)]
    \<and> snd (out_shape E (gens s)) \<noteq> max_input_len"
    if "timed_iteration E max_input_len s = (Inr (), t)"
    using timed_iteration_InrD [OF that] by simp
  have b: "fst (timed_iteration E max_input_len s) = Inl ZeroDivisionError
      \<and> times (snd (timed_iteration E max_input_len s)) = times s"
    if "\<forall>k. fails E k = None" "snd (out_shape E (gens s)) = max_input_len"
    by (simp add: timed_iteration_zero_division [OF that])
  have c: "fst (timed_iteration E max_input_len s) = Inr ()"
    if "\<forall>k. fails E k = None" "snd (out_shape E (gens s)) \<noteq> max_input_len"
    by (simp add: timed_iteration_ok [OF that])
  from a b c show ?thesis by blast
qed

text \<open>C6 on the example environment, with input lengths 1024 and 1152.\<close>

theorem latency_sample_per_token_witness:
  "timed_iteration example_env 1024 init_state
     = (Inr (), snd (timed_iteration example_env 1024 init_state))
   \<and> times (snd (timed_iteration example_env 1024 init_state)) = [(1 - 0) / of_int (1152 - 1024)]
   \<and> (\<forall>k. fails example_env k = None)
   \<and> snd (out_shape example_env (gens init_state)) = 1152
   \<and> fst (timed_iteration example_env 1152 init_state) = Inl ZeroDivisionError
   \<and> times (snd (timed_iteration example_env 1152 init_state)) = times init_state"
proof -
  have h: "timed_iteration example_env 1024 init_state
     = (Inr (), snd (timed_iteration example_env 1024 init_state))"
    by (simp add: example_iteration)
  have f: "\<forall>k. fails example_env k = None"
    by (simp add: example_fails)
  have o: "snd (out_shape example_env (gens init_state)) = 1152"
    by (simp add: example_out_shape)
  have c: "clock example_env (Suc (ticks init_state)) - clock example_env (ticks init_state)
             = 1 - 0"
    by (simp add: example_env_def init_state_def)
  have t0: "times init_state = []"
    by (simp add: init_state_def)
  note w1 = latency_sample_per_token [of example_env 1024 init_state
      "snd (timed_iteration example_env 1024 init_state)"]
  note w2 = latency_sample_per_token [of example_env 1152 init_state
      "snd (timed_iteration example_env 1152 init_state)"]
  from w1 h have "times (snd (timed_iteration example_env 1024 init_state))
      = times init_state @ [(clock example_env (Suc (ticks init_state))
           - clock example_env (ticks init_state))
          / of_int (snd (out_shape example_env (gens init_state)) - 1024)]"
    by blast
  then have s1: "times (snd (timed_iteration example_env 1024 init_state))
      = [(1 - 0) / of_int (1152 - 1024)]"
    by (simp only: c o t0 append_Nil)
  from w2 f o have s2: "fst (timed_iteration example_env 1152 init_state) = Inl ZeroDivisionError
      \<and> times (snd (timed_iteration example_env 1152 init_state)) = times init_state"
    by blast
  from h s1 f o s2 show ?thesis by blast
qed

lemma run_trace_explicit:
  "setup_events a @ concat (replicate iters iteration_events) @ profiled_events =
   [Tokenizer_from_pretrained (path a), Model_from_pretrained (path a), Model_half,
    ShardConfig_init (tp_size a > 1),
    TPInferEngine_init (batch_size a) (input_len a) (output_len a),
    Randint (batch_size a) (input_len a), Ones (batch_size a) (input_len a),
    Synchronize, TimeRead, Generate, Synchronize, TimeRead,
    Synchronize, TimeRead, Generate, Synchronize, TimeRead,
    Synchronize, TimeRead, Generate, Synchronize, TimeRead,
    Synchronize, TimeRead, Generate, Synchronize, TimeRead,
    Synchronize, TimeRead, Generate, Synchronize, TimeRead,
    Synchronize, TimeRead, Generate, Synchronize, TimeRead,
    Synchronize, TimeRead, Generate, Synchronize, TimeRead,
    Synchronize, TimeRead, Generate, Synchronize, TimeRead,
    Synchronize, TimeRead, Generate, Synchronize, TimeRead,
    Synchronize, TimeRead, Generate, Synchronize, TimeRead,
    Profile, Record_function, Synchronize, Generate, Synchronize, Key_averages_table]"
  by (simp add: setup_events_def iters_def iteration_events_def profiled_events_def
      eval_nat_numeral)

lemma all_less_10:
  "(\<forall>k<10::nat. P k) \<longleftrightarrow> P 0 \<and> P 1 \<and> P 2 \<and> P 3 \<and> P 4 \<and> P 5 \<and> P 6 \<and> P 7 \<and> P 8 \<and> P 9"
  by (simp add: eval_nat_numeral All_less_Suc conj_ac)

lemma time_time_eq:
  "time_time E u = (Inr (clock E (ticks u)), u\<lparr>trace := trace u @ [TimeRead], ticks := Suc (ticks u)\<rparr>)"
  by (simp add: time_time_def)

text \<open>
  C9, amended. A run that returns without raising has made these calls, in this order:
  the seven calls of the set-up; ten times a barrier, a clock reading, \<^verbatim>\<open>generate\<close>, a
  barrier, a clock reading; then the profiler, \<^verbatim>\<open>record_function\<close>, a barrier, \<^verbatim>\<open>generate\<close>,
  a barrier and the table. Pass \<open>k\<close> of the timing loop is the events \<open>7 + 5k\<close> to
  \<open>11 + 5k\<close>: its \<^verbatim>\<open>generate\<close> call is followed at once by a barrier and preceded by the
  reading of the start time, which follows a barrier, and the end time is read right
  after the barrier that follows the call. The profiled call is event 60, with a barrier
  right before and right after it. There is no other \<^verbatim>\<open>generate\<close> call and no other clock
  reading. In a pass the first reading is the start time and the second the end time:
  their difference is what the pass prints.
\<close>

theorem generate_between_barriers:
  assumes "run_llama_test E a init_state = (Inr (), t)"
  shows "trace t = setup_events a
            @ concat (replicate 10 [Synchronize, TimeRead, Generate, Synchronize, TimeRead])
            @ [Profile, Record_function, Synchronize, Generate, Synchronize, Key_averages_table]
       \<and> length (setup_events a) = 7
       \<and> (\<forall>k<10. trace t ! (7 + 5 * k) = Synchronize
                \<and> trace t ! (8 + 5 * k) = TimeRead
                \<and> trace t ! (9 + 5 * k) = Generate
                \<and> trace t ! (10 + 5 * k) = Synchronize
                \<and> trace t ! (11 + 5 * k) = TimeRead)
       \<and> trace t ! 57 = Profile \<and> trace t ! 58 = Record_function
       \<and> trace t ! 59 = Synchronize \<and> trace t ! 60 = Generate \<and> trace t ! 61 = Synchronize
       \<and> trace t ! 62 = Key_averages_table \<and> length (trace t) = 63
       \<and> (\<forall>i<length (trace t). trace t ! i = Generate \<longrightarrow>
             i \<in> {9, 14, 19, 24, 29, 34, 39, 44, 49, 54, 60})
       \<and> (\<forall>i<length (trace t). trace t ! i = TimeRead \<longrightarrow>
             i \<in> {8, 13, 18, 23, 28, 33, 38, 43, 48, 53} \<or> i \<in> {11, 16, 21, 26, 31, 36, 41, 46, 51, 56})
       \<and> (\<forall>u v. timed_iteration E (input_len a) u = (Inr (), v) \<longrightarrow>
             trace v = trace u @ [Synchronize, TimeRead, Generate, Synchronize, TimeRead]
           \<and> ticks v = Suc (Suc (ticks u))
           \<and> stdout v = stdout u
                 @ [GenerationTime (clock E (Suc (ticks u)) - clock E (ticks u))])"
proof -
  from run_llama_test_InrD [OF assms]
  have tr: "trace t = setup_events a @ concat (replicate iters iteration_events) @ profiled_events"
    by (simp add: init_state_def)
  have c1: "trace t = setup_events a
            @ concat (replicate 10 [Synchronize, TimeRead, Generate, Synchronize, TimeRead])
            @ [Profile, Record_function, Synchronize, Generate, Synchronize, Key_averages_table]"
    using tr by (simp only: iters_def iteration_events_def profiled_events_def)
  have c2: "length (setup_events a) = 7"
    by (simp add: setup_events_def)
  have c3: "\<forall>k<10. trace t ! (7 + 5 * k) = Synchronize
                \<and> trace t ! (8 + 5 * k) = TimeRead
                \<and> trace t ! (9 + 5 * k) = Generate
                \<and> trace t ! (10 + 5 * k) = Synchronize
                \<and> trace t ! (11 + 5 * k) = TimeRead"
    unfolding tr run_trace_explicit all_less_10 by simp
  have c4: "trace t ! 57 = Profile \<and> trace t ! 58 = Record_function
       \<and> trace t ! 59 = Synchronize \<and> trace t ! 60 = Generate \<and> trace t ! 61 = Synchronize
       \<and> trace t ! 62 = Key_averages_table \<and> length (trace t) = 63"
    unfolding tr run_trace_explicit by simp
  have c5: "\<forall>i<length (trace t). trace t ! i = Generate \<longrightarrow>
             i \<in> {9, 14, 19, 24, 29, 34, 39, 44, 49, 54, 60}"
    unfolding tr run_trace_explicit by (simp add: All_less_Suc)
  have c6: "\<forall>i<length (trace t). trace t ! i = TimeRead \<longrightarrow>
             i \<in> {8, 13, 18, 23, 28, 33, 38, 43, 48, 53} \<or> i \<in> {11, 16, 21, 26, 31, 36, 41, 46, 51, 56}"
    unfolding tr run_trace_explicit by (simp add: All_less_Suc)
  have c7: "trace v = trace u @ [Synchronize, TimeRead, Generate, Synchronize, TimeRead]
           \<and> ticks v = Suc (Suc (ticks u))
           \<and> stdout v = stdout u
                 @ [GenerationTime (clock E (Suc (ticks u)) - clock E (ticks u))]"
    if "timed_iteration E (input_len a) u = (Inr (), v)" for u v
    using timed_iteration_InrD [OF that] by (simp add: iteration_events_def)
  from c1 c2 c3 c4 c5 c6 c7 show ?thesis by blast
qed

lemma example_trace:
  "trace (snd (run_llama_test example_env example_args init_state)) =
     setup_events example_args @ concat (replicate iters iteration_events) @ profiled_events"
  by (simp add: example_run)

text \<open>The amended C9 on the run of the example environment.\<close>

theorem generate_between_barriers_witness:
  "run_llama_test example_env example_args init_state
     = (Inr (), snd (run_llama_test example_env example_args init_state))
   \<and> trace (snd (run_llama_test example_env example_args init_state)) ! 7 = Synchronize
   \<and> trace (snd (run_llama_test example_env example_args init_state)) ! 8 = TimeRead
   \<and> trace (snd (run_llama_test example_env example_args init_state)) ! 9 = Generate
   \<and> trace (snd (run_llama_test example_env example_args init_state)) ! 10 = Synchronize
   \<and> trace (snd (run_llama_test example_env example_args init_state)) ! 11 = TimeRead
   \<and> trace (snd (run_llama_test example_env example_args init_state)) ! 59 = Synchronize
   \<and> trace (snd (run_llama_test example_env example_args init_state)) ! 60 = Generate
   \<and> trace (snd (run_llama_test example_env example_args init_state)) ! 61 = Synchronize
   \<and> length (trace (snd (run_llama_test example_env example_args init_state))) = 63"
proof -
  let ?t = "snd (run_llama_test example_env example_args init_state)"
  have h: "run_llama_test example_env example_args init_state = (Inr (), ?t)"
    by (simp add: example_run)
  have z: "(0::nat) < 10" by simp
  note w = generate_between_barriers [OF h]
  from w z have "trace ?t ! (7 + 5 * 0) = Synchronize
                \<and> trace ?t ! (8 + 5 * 0) = TimeRead
                \<and> trace ?t ! (9 + 5 * 0) = Generate
                \<and> trace ?t ! (10 + 5 * 0) = Synchronize
                \<and> trace ?t ! (11 + 5 * 0) = TimeRead"
    by blast
  then have a: "trace ?t ! 7 = Synchronize \<and> trace ?t ! 8 = TimeRead \<and> trace ?t ! 9 = Generate
      \<and> trace ?t ! 10 = Synchronize \<and> trace ?t ! 11 = TimeRead"
    by simp
  from w have b: "trace ?t ! 59 = Synchronize \<and> trace ?t ! 60 = Generate
      \<and> trace ?t ! 61 = Synchronize \<and> length (trace ?t) = 63"
    by blast
  from h a b show ?thesis by blast
qed

text \<open>
  C9 as stated: in the run of the example environment the first \<^verbatim>\<open>generate\<close> call
  (event 9) comes right after a clock reading, not a barrier, and the end time is read
  (event 11) after the barrier that closes the pair (events 7 and 10), not inside it.
\<close>

theorem end_time_read_after_barrier_counterexample:
  "fst (run_llama_test example_env example_args init_state) = Inr ()
   \<and> trace (snd (run_llama_test example_env example_args init_state)) ! 7 = Synchronize
   \<and> trace (snd (run_llama_test example_env example_args init_state)) ! 8 = TimeRead
   \<and> trace (snd (run_llama_test example_env example_args init_state)) ! 9 = Generate
   \<and> trace (snd (run_llama_test example_env example_args init_state)) ! 10 = Synchronize
   \<and> trace (snd (run_llama_test example_env example_args init_state)) ! 11 = TimeRead
   \<and> trace (snd (run_llama_test example_env example_args init_state)) ! (9 - 1) \<noteq> Synchronize
   \<and> trace (snd (run_llama_test example_env example_args init_state)) ! 12 = Synchronize"
proof -
  have ok: "fst (run_llama_test example_env example_args init_state) = Inr ()"
    by (simp add: example_run)
  show ?thesis
    unfolding example_trace run_trace_explicit using ok by simp
qed

section \<open>Propagation of exceptions\<close>

lemma faults_end_run_same_trace: "trace t = trace s \<Longrightarrow> faults_end_run E s r t"
  by (auto simp: faults_end_run_def)

lemma faults_end_run_snoc:
  assumes "trace t = trace s @ [ev]"
    and "\<And>e. ev \<noteq> TimeRead \<Longrightarrow> fails E (length (trace s)) = Some e \<Longrightarrow> r = Inl e"
  shows "faults_end_run E s r t"
  using assms by (auto simp: faults_end_run_def nth_append less_Suc_eq)

lemma faults_end_run_calls_ok: "faults_end_run E s (Inr x) t \<Longrightarrow> calls_ok E s t"
  unfolding faults_end_run_def calls_ok_def
  by (metis Inl_Inr_False not_Some_eq)

lemma faults_end_run_trans:
  assumes "faults_end_run E s (Inr x) u" and "faults_end_run E u r t"
  shows "faults_end_run E s r t"
proof -
  from assms have l: "length (trace s) \<le> length (trace u)" "length (trace u) \<le> length (trace t)"
    and p1: "take (length (trace s)) (trace u) = trace s"
    and p2: "take (length (trace u)) (trace t) = trace u"
    by (simp_all add: faults_end_run_def)
  have pre: "take (length (trace s)) (trace t) = trace s"
  proof -
    have "take (length (trace s)) (trace t)
            = take (length (trace s)) (take (length (trace u)) (trace t))"
      using l by (simp add: min_def)
    then show ?thesis by (simp add: p1 p2)
  qed
  have f: "Suc j = length (trace t) \<and> r = Inl e"
    if j: "length (trace s) \<le> j" "j < length (trace t)" "trace t ! j \<noteq> TimeRead"
      "fails E j = Some e" for j e
  proof (cases "j < length (trace u)")
    case True
    have "trace u ! j = take (length (trace u)) (trace t) ! j"
      by (simp add: p2)
    also have "\<dots> = trace t ! j"
      using True by simp
    finally have "trace u ! j \<noteq> TimeRead" using j(3) by simp
    with assms(1) j(1,4) True have "Inr x = (Inl e :: py_error + 'a)"
      unfolding faults_end_run_def by blast
    then show ?thesis by simp
  next
    case False
    then have "length (trace u) \<le> j" by simp
    with assms(2) j(2,3,4) show ?thesis unfolding faults_end_run_def by blast
  qed
  from l pre f show ?thesis unfolding faults_end_run_def by auto
qed

lemma propagating_seq:
  assumes "propagating E m" and "\<And>x. propagating E (f x)"
  shows "propagating E (seq m f)"
proof -
  have a: "faults_end_run E s r t
      \<and> (\<forall>e. r = Inl e \<longrightarrow> own_exception e \<or> raised_by_last_call E t e)"
    if "seq m f s = (r, t)" for s r t
  proof (cases "m s")
    case (Pair r' u)
    show ?thesis
    proof (cases r')
      case (Inl e')
      with Pair that have r: "r = Inl e'" "t = u" by (simp_all add: seq_def)
      from Pair Inl assms(1) have "faults_end_run E s (Inl e' :: py_error + 'a) u"
        and o: "own_exception e' \<or> raised_by_last_call E u e'"
        by (simp_all add: propagating_def)
      then have "faults_end_run E s (Inl e' :: py_error + 'b) u"
        by (simp add: faults_end_run_def)
      with r o show ?thesis by simp
    next
      case (Inr x)
      with Pair that have 2: "f x u = (r, t)" by (simp add: seq_def)
      from Pair Inr assms(1) have 1: "faults_end_run E s (Inr x) u" by (simp add: propagating_def)
      from 2 assms(2) [of x] have 3: "faults_end_run E u r t"
        and 4: "\<forall>e. r = Inl e \<longrightarrow> own_exception e \<or> raised_by_last_call E t e"
        by (simp_all add: propagating_def)
      from faults_end_run_trans [OF 1 3] 4 show ?thesis by simp
    qed
  qed
  then show ?thesis unfolding propagating_def by blast
qed

lemma propagating_ext: "ev \<noteq> TimeRead \<Longrightarrow> propagating E (ext E ev)"
  unfolding propagating_def
  by (auto simp: ext_def Let_def raised_by_last_call_def intro!: faults_end_run_snoc
      split: option.splits)

lemma propagating_synchronize: "propagating E (synchronize E)"
  by (simp add: synchronize_def propagating_ext)

lemma propagating_generate: "propagating E (generate E)"
  unfolding propagating_def
  by (auto simp: generate_def Let_def raised_by_last_call_def intro!: faults_end_run_snoc
      split: option.splits)

lemma propagating_time_time: "propagating E (time_time E)"
  unfolding propagating_def
  by (auto simp: time_time_def intro!: faults_end_run_snoc [where ev = TimeRead])

lemma propagating_print: "propagating E (print l)"
  unfolding propagating_def
  by (auto simp: print_def intro!: faults_end_run_same_trace)

lemma propagating_raise: "own_exception e \<Longrightarrow> propagating E (raise e)"
  unfolding propagating_def by (auto simp: raise_def intro!: faults_end_run_same_trace)

lemma propagating_ret: "propagating E (ret x)"
  unfolding propagating_def by (auto simp: ret_def intro!: faults_end_run_same_trace)

lemma propagating_update:
  "(\<And>s. trace (g s) = trace s) \<Longrightarrow> propagating E (\<lambda>s. (Inr x, g s))"
  unfolding propagating_def by (auto intro!: faults_end_run_same_trace)

lemma pps_own_exception:
  "snd (print_perf_stats xs cfg bs w) = Some e \<Longrightarrow> own_exception e"
  by (auto simp: pps_cases own_exception_def split: if_splits)

lemma propagating_call_print_perf_stats:
  "propagating E (call_print_perf_stats xs cfg bs w)"
proof -
  obtain ls r where p: "print_perf_stats xs cfg bs w = (ls, r)"
    by (cases "print_perf_stats xs cfg bs w")
  show ?thesis
  proof (cases r)
    case None
    with p show ?thesis
      unfolding propagating_def
      by (auto simp: call_print_perf_stats_def intro!: faults_end_run_same_trace)
  next
    case (Some e)
    with p have "own_exception e"
      using pps_own_exception [of xs cfg bs w e] by simp
    with p Some show ?thesis
      unfolding propagating_def
      by (auto simp: call_print_perf_stats_def intro!: faults_end_run_same_trace)
  qed
qed

lemma propagating_division:
  "propagating E (case py_truediv a b of Inl e \<Rightarrow> raise e
                  | Inr sample \<Rightarrow> (\<lambda>s. (Inr (), s\<lparr>times := times s @ [sample]\<rparr>)))"
proof (cases "b = 0")
  case True
  then show ?thesis
    by (simp add: py_truediv_def propagating_raise own_exception_def)
next
  case False
  then show ?thesis
    by (simp add: py_truediv_def propagating_update)
qed

lemma propagating_timed_iteration: "propagating E (timed_iteration E m)"
  unfolding timed_iteration_def Let_def
  by (intro propagating_seq propagating_synchronize propagating_time_time
      propagating_generate propagating_print propagating_division propagating_update) simp_all

lemma propagating_for_range: "propagating E body \<Longrightarrow> propagating E (for_range n body)"
  by (induction n) (simp_all add: propagating_ret propagating_seq)

lemma propagating_outputs:
  "propagating E (\<lambda>s. case outputs s of
                 None \<Rightarrow> raise (UnboundLocalError ''outputs'') s
               | Some out \<Rightarrow> print (Outputs (fst out)) s)"
  unfolding propagating_def
  by (auto simp: raise_def print_def own_exception_def intro!: faults_end_run_same_trace
      split: option.splits)

lemma propagating_state_call:
  "(\<And>s. propagating E (m s)) \<Longrightarrow> propagating E (\<lambda>s. m s s)"
  unfolding propagating_def by blast

lemma propagating_run_llama_test: "propagating E (run_llama_test E a)"
  unfolding run_llama_test_def Let_def
  by (intro propagating_seq propagating_synchronize propagating_generate propagating_print
      propagating_ext propagating_update propagating_for_range propagating_timed_iteration
      propagating_outputs
      propagating_state_call [where m = "\<lambda>s. call_print_perf_stats (times s) _ _ _"]
      propagating_call_print_perf_stats) simp_all

lemma propagating_check_llama: "propagating E (check_llama E rank world_size port a)"
  unfolding check_llama_def
  by (intro propagating_seq propagating_ext propagating_run_llama_test) simp_all

lemma for_range_raises:
  "k < n \<Longrightarrow> for_range k body s = (Inr (), u) \<Longrightarrow> body u = (Inl e, v) \<Longrightarrow>
   for_range n body s = (Inl e, v)"
proof (induction k arbitrary: s n)
  case 0
  then obtain n' where n: "n = Suc n'" by (cases n) auto
  from 0 have "u = s" by (simp add: ret_def)
  with 0 n show ?case by (simp add: seq_Inl)
next
  case (Suc k)
  then obtain n' where n: "n = Suc n'" and kn: "k < n'" by (cases n) auto
  from Suc.prems(2) obtain w where
    w: "body s = (Inr (), w)" and r: "for_range k body w = (Inr (), u)"
    by (auto dest!: seq_InrD)
  from Suc.IH [OF kn r Suc.prems(3)] have "for_range n' body w = (Inl e, v)" .
  with w n show ?case by (simp add: seq_Inr)
qed

lemma timed_iteration_division:
  assumes "fails E (length (trace s)) = None"
    and "fails E (length (trace s) + 2) = None"
    and "fails E (length (trace s) + 3) = None"
    and "snd (out_shape E (gens s)) = m"
  shows "timed_iteration E m s =
    (Inl ZeroDivisionError,
     s\<lparr>trace := trace s @ iteration_events,
       stdout := stdout s @ [GenerationTime (clock E (Suc (ticks s)) - clock E (ticks s))],
       ticks := Suc (Suc (ticks s)),
       gens := Suc (gens s),
       outputs := Some (out_shape E (gens s))\<rparr>)"
proof -
  from assms(2) have f2: "fails E (Suc (Suc (length (trace s)))) = None" by simp
  from assms(3) have f3: "fails E (Suc (Suc (Suc (length (trace s))))) = None"
    by (simp add: eval_nat_numeral)
  show ?thesis
    using assms(1,4) f2 f3
    by (simp add: timed_iteration_def seq_def synchronize_def ext_def generate_def time_time_def
      print_def raise_def py_truediv_def Let_def iteration_events_def)
qed

lemma setup_facts:
  assumes "\<forall>j<7. fails E (length (trace s) + j) = None"
  shows "fails E (length (trace s)) = None"
    "fails E (Suc (length (trace s))) = None"
    "fails E (Suc (Suc (length (trace s)))) = None"
    "fails E (Suc (Suc (Suc (length (trace s))))) = None"
    "fails E (Suc (Suc (Suc (Suc (length (trace s)))))) = None"
    "fails E (Suc (Suc (Suc (Suc (Suc (length (trace s))))))) = None"
    "fails E (Suc (Suc (Suc (Suc (Suc (Suc (length (trace s)))))))) = None"
  using assms [rule_format, of 0] assms [rule_format, of 1] assms [rule_format, of 2]
    assms [rule_format, of 3] assms [rule_format, of 4] assms [rule_format, of 5]
    assms [rule_format, of 6]
  by (simp_all add: eval_nat_numeral)

lemma run_raises_with_loop:
  assumes "\<forall>j<7. fails E (length (trace s) + j) = None"
    and "for_range iters (timed_iteration E (input_len a))
           (s\<lparr>trace := trace s @ setup_events a, times := []\<rparr>) = (Inl e, u)"
  shows "run_llama_test E a s = (Inl e, u)"
  using assms(2) setup_facts [OF assms(1)]
  by (simp add: run_llama_test_def Let_def seq_def ext_def setup_events_def)

lemma run_raises_with_print_perf_stats:
  assumes "\<forall>j<7. fails E (length (trace s) + j) = None"
    and "for_range iters (timed_iteration E (input_len a))
           (s\<lparr>trace := trace s @ setup_events a, times := []\<rparr>) = (Inr (), u)"
    and "print_perf_stats (times u) (model_config E) (batch_size a) warmup_default
           = (ls, Some e)"
  shows "\<exists>out. outputs u = Some out
          \<and> run_llama_test E a s = (Inl e, u\<lparr>stdout := stdout u @ [Outputs (fst out)] @ ls\<rparr>)"
proof -
  from for_range_InrD [OF assms(2)] have "outputs u \<noteq> None"
    by (simp add: iters_def)
  then obtain out where out: "outputs u = Some out" by blast
  have "run_llama_test E a s = (Inl e, u\<lparr>stdout := stdout u @ [Outputs (fst out)] @ ls\<rparr>)"
    using assms(2,3) setup_facts [OF assms(1)] out
    by (simp add: run_llama_test_def Let_def seq_def ext_def setup_events_def print_def
        call_print_perf_stats_def)
  with out show ?thesis by blast
qed

lemma check_llama_raises_with_run:
  assumes "fails E (length (trace s)) = None" and "fails E (Suc (length (trace s))) = None"
    and "run_llama_test E a
           (s\<lparr>trace := trace s @ [Disable_existing_loggers, Launch rank world_size port]\<rparr>)
         = (r, t)"
  shows "check_llama E rank world_size port a s = (r, t)"
  using assms by (simp add: check_llama_def seq_def ext_def)

lemma rerun_skip:
  "\<forall>j<n. fst (attempt (k + j)) = Inl AddressAlreadyInUse \<Longrightarrow>
   rerun_if_address_is_in_use attempt k = rerun_if_address_is_in_use attempt (k + n)"
proof (induction n arbitrary: k)
  case 0
  show ?case by simp
next
  case (Suc n)
  from Suc.prems have h: "fst (attempt k) = Inl AddressAlreadyInUse"
    by (metis add.right_neutral zero_less_Suc)
  from Suc.prems have "\<forall>j<n. fst (attempt (Suc k + j)) = Inl AddressAlreadyInUse"
    by (metis Suc_less_eq add_Suc_right add_Suc)
  from Suc.IH [OF this] h show ?case
    by (subst rerun_if_address_is_in_use.simps) simp
qed

lemma rerun_first:
  assumes "\<forall>j<n. fst (attempt j) = Inl AddressAlreadyInUse"
    and "fst (attempt n) \<noteq> Inl AddressAlreadyInUse"
  shows "rerun_if_address_is_in_use attempt 0 = Some (attempt n)"
proof -
  from assms(1) have "rerun_if_address_is_in_use attempt 0
      = rerun_if_address_is_in_use attempt (0 + n)"
    by (intro rerun_skip) simp
  also have "\<dots> = Some (attempt n)"
    using assms(2) by (subst rerun_if_address_is_in_use.simps) simp
  finally show ?thesis .
qed

lemma find_isl_Some:
  "List.find (\<lambda>r. isl (fst r)) rs = Some r \<Longrightarrow> r \<in> set rs \<and> isl (fst r)"
  by (auto simp: find_Some_iff)

lemma spawn_raises:
  assumes "fst (spawn func n port) = Inl e"
  shows "\<exists>rank<n. fst (func rank n port init_state) = Inl e"
proof -
  let ?rs = "map (\<lambda>rank. func rank n port init_state) [0..<n]"
  from assms obtain t where f: "List.find (\<lambda>r. isl (fst r)) ?rs = Some (Inl e, t)"
    by (auto simp: spawn_def Let_def split: option.splits prod.splits sum.splits)
  from find_isl_Some [OF f] have "(Inl e, t) \<in> set ?rs" by simp
  then obtain rank where "rank < n" "func rank n port init_state = (Inl e, t)"
    by auto
  then show ?thesis by auto
qed

lemma spawn_worker_raises:
  assumes "rank < n" and "fst (func rank n port init_state) = Inl e"
  shows "isl (fst (spawn func n port))"
proof -
  let ?rs = "map (\<lambda>rank. func rank n port init_state) [0..<n]"
  from assms have "func rank n port init_state \<in> set ?rs"
    by simp
  moreover from assms have "isl (fst (func rank n port init_state))"
    by simp
  ultimately have "\<exists>r\<in>set ?rs. isl (fst r)"
    by blast
  then obtain r where "List.find (\<lambda>r. isl (fst r)) ?rs = Some r"
    by (cases "List.find (\<lambda>r. isl (fst r)) ?rs") (auto simp: find_None_iff)
  moreover from find_isl_Some [OF this] have "isl (fst r)" by simp
  ultimately show ?thesis
    by (cases r) (auto simp: spawn_def Let_def isl_def)
qed

lemma tokenizer_failure:
  "fails E (length (trace s)) = Some e \<Longrightarrow>
   run_llama_test E a s = (Inl e, s\<lparr>trace := trace s @ [Tokenizer_from_pretrained (path a)]\<rparr>)"
  by (simp add: run_llama_test_def Let_def seq_def ext_def)

lemma address_in_use_worker:
  "check_llama address_in_use_env rank world_size port a init_state =
     (Inl AddressAlreadyInUse,
      init_state\<lparr>trace := [Disable_existing_loggers, Launch rank world_size port]\<rparr>)"
  by (simp add: check_llama_def seq_def ext_def address_in_use_env_def init_state_def)

lemma bad_path_worker:
  "check_llama bad_path_env rank world_size port a init_state =
     (Inl (ExternalError ''no model at this path''),
      init_state\<lparr>trace := [Disable_existing_loggers, Launch rank world_size port,
                            Tokenizer_from_pretrained (path a)]\<rparr>)"
  by (simp add: check_llama_def run_llama_test_def Let_def seq_def ext_def bad_path_env_def
      init_state_def)

lemma example_tp_size: "nat (tp_size example_args) = Suc 0"
  by (simp add: example_args_def)

lemma address_in_use_body:
  "fst (test_llama_body (\<lambda>_. address_in_use_env) port example_args) = Inl AddressAlreadyInUse"
  by (simp add: test_llama_body_def spawn_def Let_def example_tp_size address_in_use_worker)

lemma bad_path_body:
  "fst (test_llama_body (\<lambda>_. bad_path_env) port example_args)
     = Inl (ExternalError ''no model at this path'')"
  by (simp add: test_llama_body_def spawn_def Let_def example_tp_size bad_path_worker)

lemma spawn_first_raises:
  assumes "rank < n" and "fst (func rank n port init_state) = Inl e"
    and "\<forall>r<rank. \<not> isl (fst (func r n port init_state))"
  shows "fst (spawn func n port) = Inl e"
proof -
  let ?rs = "map (\<lambda>rank. func rank n port init_state) [0..<n]"
  have "List.find (\<lambda>r. isl (fst r)) ?rs = Some (func rank n port init_state)"
    unfolding find_Some_iff
    using assms by (intro exI [of _ rank]) auto
  with assms(2) show ?thesis
    by (cases "func rank n port init_state") (auto simp: spawn_def Let_def)
qed

lemma script_main_raises:
  "test_llama Es ports a = Some (Inl e, ws) \<Longrightarrow>
   script_main Es ports a = Some (Uncaught_exception e)"
  by (simp add: script_main_def)

lemma timed_iteration_cong:
  assumes "fails E' = fails E" and "clock E' = clock E" and "out_shape E' = out_shape E"
  shows "timed_iteration E' m = timed_iteration E m"
proof -
  have s: "synchronize E' = synchronize E"
    by (rule ext) (simp add: synchronize_def ext_def Let_def assms split: option.splits)
  have t: "time_time E' = time_time E"
    by (rule ext) (simp add: time_time_def assms)
  have g: "generate E' = generate E"
    by (rule ext) (simp add: generate_def Let_def assms split: option.splits)
  show ?thesis
    by (simp add: timed_iteration_def s t g)
qed

lemma layers_only_iteration:
  "timed_iteration layers_only_env m = timed_iteration example_env m"
  by (rule timed_iteration_cong) (simp_all add: layers_only_env_def example_env_def)

lemma layers_only_fails: "fails layers_only_env k = None"
  by (simp add: layers_only_env_def)

lemma layers_only_model: "model_config layers_only_env = layers_only_config"
  by (simp add: layers_only_env_def)

lemma layers_only_samples:
  "print_perf_stats (replicate iters (1 / 128)) layers_only_config 16 warmup_default
     = ([], Some (AttributeError ''num_hidden_layers''))"
proof -
  have s: "py_slice_from (replicate iters (1 / 128 :: real)) warmup_default
             = replicate 7 (1 / 128)"
    by (simp add: py_slice_from_def iters_def warmup_default_def)
  have e: "replicate 7 (1 / 128 :: real) \<noteq> []"
    by (simp add: eval_nat_numeral)
  show ?thesis
    by (simp add: pps_cases s e layers_only_nhl)
qed

text \<open>
  C10. Neither \<^verbatim>\<open>run_llama_test\<close> nor \<^verbatim>\<open>check_llama\<close> handles an exception. A library call
  they make that raises is the last thing they do, and they raise what the call raised;
  what they raise is the exception of the call made last or one of the script's own
  (lines 27, 28, 32, 68 and 70); when they return, no call has raised. A model path that
  cannot be loaded ends the run at line 42. A pass of the timing loop whose output is no
  longer than the input raises \<^verbatim>\<open>ZeroDivisionError\<close> at line 68; what a pass raises the loop
  raises, what the loop raises \<^verbatim>\<open>run_llama_test\<close> raises, and what \<^verbatim>\<open>print_perf_stats\<close>
  raises at line 71 \<^verbatim>\<open>run_llama_test\<close> raises, with no call made after it. \<^verbatim>\<open>check_llama\<close>
  ends as \<^verbatim>\<open>run_llama_test\<close> ends. What the body of \<^verbatim>\<open>test_llama\<close> raises was raised by a
  worker, and the exception of the first worker that raised is raised by the body. The
  decorated \<^verbatim>\<open>test_llama\<close> runs the body again as long as it ends with the address in use,
  and ends as the first other run of the body ends, with its exception if it raised one.
  An exception that leaves \<^verbatim>\<open>test_llama\<close> ends the process.
\<close>

theorem failures_propagate_uncaught:
  "(\<forall>s r t j e. run_llama_test E a s = (r, t) \<and> length (trace s) \<le> j \<and> j < length (trace t)
        \<and> trace t ! j \<noteq> TimeRead \<and> fails E j = Some e \<longrightarrow>
         Suc j = length (trace t) \<and> r = Inl e)
   \<and> (\<forall>s e t. run_llama_test E a s = (Inl e, t) \<longrightarrow> own_exception e \<or> raised_by_last_call E t e)
   \<and> (\<forall>s t. run_llama_test E a s = (Inr (), t) \<longrightarrow> calls_ok E s t)
   \<and> (\<forall>e. fails E 0 = Some e \<longrightarrow>
         run_llama_test E a init_state
           = (Inl e, init_state\<lparr>trace := [Tokenizer_from_pretrained (path a)]\<rparr>))
   \<and> (\<forall>s. fails E (length (trace s)) = None \<and> fails E (length (trace s) + 2) = None
          \<and> fails E (length (trace s) + 3) = None \<and> snd (out_shape E (gens s)) = input_len a \<longrightarrow>
         fst (timed_iteration E (input_len a) s) = Inl ZeroDivisionError)
   \<and> (\<forall>k n s u e v. k < n \<and> for_range k (timed_iteration E (input_len a)) s = (Inr (), u)
          \<and> timed_iteration E (input_len a) u = (Inl e, v) \<longrightarrow>
         for_range n (timed_iteration E (input_len a)) s = (Inl e, v))
   \<and> (\<forall>s e u. (\<forall>j<7. fails E (length (trace s) + j) = None)
          \<and> for_range iters (timed_iteration E (input_len a))
               (s\<lparr>trace := trace s @ setup_events a, times := []\<rparr>) = (Inl e, u) \<longrightarrow>
         run_llama_test E a s = (Inl e, u))
   \<and> (\<forall>s u ls e. (\<forall>j<7. fails E (length (trace s) + j) = None)
          \<and> for_range iters (timed_iteration E (input_len a))
               (s\<lparr>trace := trace s @ setup_events a, times := []\<rparr>) = (Inr (), u)
          \<and> print_perf_stats (times u) (model_config E) (batch_size a) warmup_default
               = (ls, Some e) \<longrightarrow>
         fst (run_llama_test E a s) = Inl e \<and> trace (snd (run_llama_test E a s)) = trace u)
   \<and> (\<forall>s r t j e. check_llama E rank world_size port a s = (r, t) \<and> length (trace s) \<le> j
        \<and> j < length (trace t) \<and> trace t ! j \<noteq> TimeRead \<and> fails E j = Some e \<longrightarrow>
         Suc j = length (trace t) \<and> r = Inl e)
   \<and> (\<forall>s e t. check_llama E rank world_size port a s = (Inl e, t) \<longrightarrow>
         own_exception e \<or> raised_by_last_call E t e)
   \<and> (\<forall>s r t. fails E (length (trace s)) = None \<and> fails E (Suc (length (trace s))) = None
          \<and> run_llama_test E a
               (s\<lparr>trace := trace s @ [Disable_existing_loggers, Launch rank world_size port]\<rparr>)
             = (r, t) \<longrightarrow>
         check_llama E rank world_size port a s = (r, t))
   \<and> (\<forall>e. fst (test_llama_body Ws port a) = Inl e \<longrightarrow>
         (\<exists>r<nat (tp_size a).
            fst (check_llama (Ws r) r (nat (tp_size a)) port a init_state) = Inl e))
   \<and> (\<forall>r e. r < nat (tp_size a)
            \<and> fst (check_llama (Ws r) r (nat (tp_size a)) port a init_state) = Inl e
            \<and> (\<forall>q<r. \<not> isl (fst (check_llama (Ws q) q (nat (tp_size a)) port a init_state))) \<longrightarrow>
         fst (test_llama_body Ws port a) = Inl e)
   \<and> (\<forall>r e. r < nat (tp_size a)
            \<and> fst (check_llama (Ws r) r (nat (tp_size a)) port a init_state) = Inl e \<longrightarrow>
         isl (fst (test_llama_body Ws port a)))
   \<and> (\<forall>n. (\<forall>j<n. fst (test_llama_body (Es j) (ports j) a) = Inl AddressAlreadyInUse)
          \<and> fst (test_llama_body (Es n) (ports n) a) \<noteq> Inl AddressAlreadyInUse \<longrightarrow>
         test_llama Es ports a = Some (test_llama_body (Es n) (ports n) a))
   \<and> (\<forall>e ws. test_llama Es ports a = Some (Inl e, ws) \<longrightarrow>
         script_main Es ports a = Some (Uncaught_exception e))"
proof -
  note p = propagating_run_llama_test [of E a, unfolded propagating_def]
  have c1: "\<forall>s r t j e. run_llama_test E a s = (r, t) \<and> length (trace s) \<le> j
        \<and> j < length (trace t)
        \<and> trace t ! j \<noteq> TimeRead \<and> fails E j = Some e \<longrightarrow>
         Suc j = length (trace t) \<and> r = Inl e"
    using p unfolding faults_end_run_def by blast
  from p have c2: "\<forall>s e t. run_llama_test E a s = (Inl e, t) \<longrightarrow>
      own_exception e \<or> raised_by_last_call E t e"
    by blast
  have c3: "\<forall>s t. run_llama_test E a s = (Inr (), t) \<longrightarrow> calls_ok E s t"
  proof (intro allI impI)
    fix s t
    assume "run_llama_test E a s = (Inr (), t)"
    with p have "faults_end_run E s (Inr ()) t" by blast
    then show "calls_ok E s t" by (rule faults_end_run_calls_ok)
  qed
  have c4: "\<forall>e. fails E 0 = Some e \<longrightarrow>
         run_llama_test E a init_state
           = (Inl e, init_state\<lparr>trace := [Tokenizer_from_pretrained (path a)]\<rparr>)"
    using tokenizer_failure [of E init_state _ a] by (simp add: init_state_def)
  have c5: "\<forall>s. fails E (length (trace s)) = None \<and> fails E (length (trace s) + 2) = None
          \<and> fails E (length (trace s) + 3) = None \<and> snd (out_shape E (gens s)) = input_len a \<longrightarrow>
         fst (timed_iteration E (input_len a) s) = Inl ZeroDivisionError"
    by (simp add: timed_iteration_division)
  have c6: "\<forall>k n s u e v. k < n \<and> for_range k (timed_iteration E (input_len a)) s = (Inr (), u)
          \<and> timed_iteration E (input_len a) u = (Inl e, v) \<longrightarrow>
         for_range n (timed_iteration E (input_len a)) s = (Inl e, v)"
  proof (intro allI impI, elim conjE)
    fix k n :: nat and s u e v
    assume "k < n" "for_range k (timed_iteration E (input_len a)) s = (Inr (), u)"
      "timed_iteration E (input_len a) u = (Inl e, v)"
    then show "for_range n (timed_iteration E (input_len a)) s = (Inl e, v)"
      by (rule for_range_raises)
  qed
  have c7: "\<forall>s e u. (\<forall>j<7. fails E (length (trace s) + j) = None)
          \<and> for_range iters (timed_iteration E (input_len a))
               (s\<lparr>trace := trace s @ setup_events a, times := []\<rparr>) = (Inl e, u) \<longrightarrow>
         run_llama_test E a s = (Inl e, u)"
  proof (intro allI impI, elim conjE)
    fix s e u
    assume "\<forall>j<7. fails E (length (trace s) + j) = None"
      "for_range iters (timed_iteration E (input_len a))
               (s\<lparr>trace := trace s @ setup_events a, times := []\<rparr>) = (Inl e, u)"
    then show "run_llama_test E a s = (Inl e, u)"
      by (rule run_raises_with_loop)
  qed
  have c8: "\<forall>s u ls e. (\<forall>j<7. fails E (length (trace s) + j) = None)
          \<and> for_range iters (timed_iteration E (input_len a))
               (s\<lparr>trace := trace s @ setup_events a, times := []\<rparr>) = (Inr (), u)
          \<and> print_perf_stats (times u) (model_config E) (batch_size a) warmup_default
               = (ls, Some e) \<longrightarrow>
         fst (run_llama_test E a s) = Inl e \<and> trace (snd (run_llama_test E a s)) = trace u"
  proof (intro allI impI, elim conjE)
    fix s u ls e
    assume h: "\<forall>j<7. fails E (length (trace s) + j) = None"
      "for_range iters (timed_iteration E (input_len a))
               (s\<lparr>trace := trace s @ setup_events a, times := []\<rparr>) = (Inr (), u)"
      "print_perf_stats (times u) (model_config E) (batch_size a) warmup_default
               = (ls, Some e)"
    from run_raises_with_print_perf_stats [OF h]
    obtain out where "outputs u = Some out" and "run_llama_test E a s
        = (Inl e, u\<lparr>stdout := stdout u @ [Outputs (fst out)] @ ls\<rparr>)"
      by blast
    from this(2)
    show "fst (run_llama_test E a s) = Inl e \<and> trace (snd (run_llama_test E a s)) = trace u"
      by simp
  qed
  note q = propagating_check_llama [of E rank world_size port a, unfolded propagating_def]
  have c9: "\<forall>s r t j e. check_llama E rank world_size port a s = (r, t) \<and> length (trace s) \<le> j
        \<and> j < length (trace t) \<and> trace t ! j \<noteq> TimeRead \<and> fails E j = Some e \<longrightarrow>
         Suc j = length (trace t) \<and> r = Inl e"
    using q unfolding faults_end_run_def by blast
  from q have c10: "\<forall>s e t. check_llama E rank world_size port a s = (Inl e, t) \<longrightarrow>
         own_exception e \<or> raised_by_last_call E t e"
    by blast
  have c11: "\<forall>s r t. fails E (length (trace s)) = None \<and> fails E (Suc (length (trace s))) = None
          \<and> run_llama_test E a
               (s\<lparr>trace := trace s @ [Disable_existing_loggers, Launch rank world_size port]\<rparr>)
             = (r, t) \<longrightarrow>
         check_llama E rank world_size port a s = (r, t)"
  proof (intro allI impI, elim conjE)
    fix s r t
    assume "fails E (length (trace s)) = None" "fails E (Suc (length (trace s))) = None"
      "run_llama_test E a
               (s\<lparr>trace := trace s @ [Disable_existing_loggers, Launch rank world_size port]\<rparr>)
             = (r, t)"
    then show "check_llama E rank world_size port a s = (r, t)"
      by (rule check_llama_raises_with_run)
  qed
  have c12: "\<forall>e. fst (test_llama_body Ws port a) = Inl e \<longrightarrow>
         (\<exists>r<nat (tp_size a).
            fst (check_llama (Ws r) r (nat (tp_size a)) port a init_state) = Inl e)"
    unfolding test_llama_body_def using spawn_raises by blast
  have c13: "\<forall>r e. r < nat (tp_size a)
            \<and> fst (check_llama (Ws r) r (nat (tp_size a)) port a init_state) = Inl e
            \<and> (\<forall>q<r. \<not> isl (fst (check_llama (Ws q) q (nat (tp_size a)) port a init_state))) \<longrightarrow>
         fst (test_llama_body Ws port a) = Inl e"
  proof (intro allI impI, elim conjE)
    fix r e
    assume "r < nat (tp_size a)"
      "fst (check_llama (Ws r) r (nat (tp_size a)) port a init_state) = Inl e"
      "\<forall>q<r. \<not> isl (fst (check_llama (Ws q) q (nat (tp_size a)) port a init_state))"
    then show "fst (test_llama_body Ws port a) = Inl e"
      unfolding test_llama_body_def
      by (intro spawn_first_raises [where rank = r]) simp_all
  qed
  have c14: "\<forall>r e. r < nat (tp_size a)
            \<and> fst (check_llama (Ws r) r (nat (tp_size a)) port a init_state) = Inl e \<longrightarrow>
         isl (fst (test_llama_body Ws port a))"
    unfolding test_llama_body_def
    using spawn_worker_raises
      [of _ "nat (tp_size a)" "\<lambda>rank world_size port. check_llama (Ws rank) rank world_size port a"
          port]
    by blast
  have c15: "\<forall>n. (\<forall>j<n. fst (test_llama_body (Es j) (ports j) a) = Inl AddressAlreadyInUse)
          \<and> fst (test_llama_body (Es n) (ports n) a) \<noteq> Inl AddressAlreadyInUse \<longrightarrow>
         test_llama Es ports a = Some (test_llama_body (Es n) (ports n) a)"
    unfolding test_llama_def clear_cache_before_run_def
    using rerun_first [of _ "\<lambda>k. test_llama_body (Es k) (ports k) a"]
    by blast
  have c16: "\<forall>e ws. test_llama Es ports a = Some (Inl e, ws) \<longrightarrow>
         script_main Es ports a = Some (Uncaught_exception e)"
    by (simp add: script_main_raises)
  show ?thesis
    by (intro conjI) (rule c1 c2 c3 c4 c5 c6 c7 c8 c9 c10 c11 c12 c13 c14 c15 c16)+
qed

lemma layers_only_loop:
  "for_range n (timed_iteration layers_only_env 1024) s =
     (Inr (), s\<lparr>trace := trace s @ concat (replicate n iteration_events),
               stdout := stdout s @ replicate n (GenerationTime 1),
               ticks := ticks s + 2 * n,
               gens := gens s + n,
               times := times s @ replicate n (1 / 128),
               outputs := (if n = 0 then outputs s else Some (16, 1152))\<rparr>)"
  by (simp only: layers_only_iteration example_loop_eq)

lemma layers_only_worker_setup:
  "\<forall>j<7. fails layers_only_env
      (length (trace (init_state\<lparr>trace := trace init_state
                        @ [Disable_existing_loggers, Launch 0 1 29500]\<rparr>)) + j) = None"
  by (simp add: layers_only_fails)

text \<open>C10 on a test whose first run finds the address in use and whose second run loads
  a model that has no \<^verbatim>\<open>num_hidden_layers\<close>: the exception of line 27 leaves
  \<^verbatim>\<open>print_perf_stats\<close>, \<^verbatim>\<open>run_llama_test\<close>, \<^verbatim>\<open>check_llama\<close> and \<^verbatim>\<open>test_llama\<close> and ends the
  process.\<close>

theorem failures_propagate_uncaught_witness:
  "fst (for_range iters (timed_iteration layers_only_env (input_len example_args))
          (init_state\<lparr>trace := [Disable_existing_loggers, Launch 0 1 29500]
                                 @ setup_events example_args\<rparr>)) = Inr ()
   \<and> print_perf_stats (replicate iters (1 / 128)) (model_config layers_only_env)
         (batch_size example_args) warmup_default
       = ([], Some (AttributeError ''num_hidden_layers''))
   \<and> fst (check_llama layers_only_env 0 1 29500 example_args init_state)
       = Inl (AttributeError ''num_hidden_layers'')
   \<and> fst (test_llama_body (\<lambda>_. address_in_use_env) 29500 example_args) = Inl AddressAlreadyInUse
   \<and> test_llama (\<lambda>k rank. if k = 0 then address_in_use_env else layers_only_env)
                 (\<lambda>_. 29500) example_args
       = Some (test_llama_body (\<lambda>_. layers_only_env) 29500 example_args)
   \<and> script_main (\<lambda>k rank. if k = 0 then address_in_use_env else layers_only_env)
                 (\<lambda>_. 29500) example_args
       = Some (Uncaught_exception (AttributeError ''num_hidden_layers''))"
proof -
  let ?E = layers_only_env
  let ?Es = "\<lambda>k rank. if k = (0::nat) then address_in_use_env else layers_only_env"
  let ?ports = "\<lambda>_::nat. 29500::int"
  let ?s = "init_state\<lparr>trace := trace init_state
                        @ [Disable_existing_loggers, Launch 0 1 29500]\<rparr>"
  let ?s' = "?s\<lparr>trace := trace ?s @ setup_events example_args, times := []\<rparr>"
  let ?u = "snd (for_range iters (timed_iteration ?E (input_len example_args)) ?s')"
  let ?e = "AttributeError ''num_hidden_layers''"
  note w = failures_propagate_uncaught [of ?E example_args 0 1 29500 "\<lambda>_. ?E" ?Es ?ports]
  have loop: "for_range iters (timed_iteration ?E (input_len example_args)) ?s' = (Inr (), ?u)"
    by (simp add: example_input_len layers_only_loop)
  have tu: "times ?u = replicate iters (1 / 128)"
    by (simp add: example_input_len layers_only_loop)
  have pps: "print_perf_stats (times ?u) (model_config ?E) (batch_size example_args)
               warmup_default = ([], Some ?e)"
    by (simp only: tu layers_only_model example_batch_size layers_only_samples)
  note c8 = w [THEN conjunct2, THEN conjunct2, THEN conjunct2, THEN conjunct2, THEN conjunct2,
      THEN conjunct2, THEN conjunct2, THEN conjunct1, rule_format, of ?s ?u "[]" ?e]
  from c8 layers_only_worker_setup loop pps
  have run: "fst (run_llama_test ?E example_args ?s) = Inl ?e"
    by blast
  note c11 = w [THEN conjunct2, THEN conjunct2, THEN conjunct2, THEN conjunct2, THEN conjunct2,
      THEN conjunct2, THEN conjunct2, THEN conjunct2, THEN conjunct2, THEN conjunct2,
      THEN conjunct1, rule_format, of init_state "fst (run_llama_test ?E example_args ?s)"
        "snd (run_llama_test ?E example_args ?s)"]
  have "check_llama ?E 0 1 29500 example_args init_state
          = (fst (run_llama_test ?E example_args ?s), snd (run_llama_test ?E example_args ?s))"
    by (rule c11) (simp add: layers_only_fails)
  with run have worker: "fst (check_llama ?E 0 1 29500 example_args init_state) = Inl ?e"
    by simp
  note c13 = w [THEN conjunct2, THEN conjunct2, THEN conjunct2, THEN conjunct2, THEN conjunct2,
      THEN conjunct2, THEN conjunct2, THEN conjunct2, THEN conjunct2, THEN conjunct2,
      THEN conjunct2, THEN conjunct2, THEN conjunct1, rule_format, of 0 ?e]
  have body: "fst (test_llama_body (\<lambda>_. ?E) 29500 example_args) = Inl ?e"
    using worker by (intro c13) (simp_all add: example_tp_size)
  note c15 = w [THEN conjunct2, THEN conjunct2, THEN conjunct2, THEN conjunct2, THEN conjunct2,
      THEN conjunct2, THEN conjunct2, THEN conjunct2, THEN conjunct2, THEN conjunct2,
      THEN conjunct2, THEN conjunct2, THEN conjunct2, THEN conjunct2, THEN conjunct1,
      rule_format, of "Suc 0"]
  have "test_llama ?Es ?ports example_args
      = Some (test_llama_body (?Es (Suc 0)) (?ports (Suc 0)) example_args)"
    by (rule c15) (simp add: address_in_use_body body)
  then have t: "test_llama ?Es ?ports example_args
      = Some (test_llama_body (\<lambda>_. ?E) 29500 example_args)"
    by simp
  note c16 = w [THEN conjunct2, THEN conjunct2, THEN conjunct2, THEN conjunct2, THEN conjunct2,
      THEN conjunct2, THEN conjunct2, THEN conjunct2, THEN conjunct2, THEN conjunct2,
      THEN conjunct2, THEN conjunct2, THEN conjunct2, THEN conjunct2, THEN conjunct2,
      rule_format, of ?e "snd (test_llama_body (\<lambda>_. ?E) 29500 example_args)"]
  have m: "script_main ?Es ?ports example_args = Some (Uncaught_exception ?e)"
  proof (rule c16)
    have "test_llama_body (\<lambda>_. ?E) 29500 example_args
            = (Inl ?e, snd (test_llama_body (\<lambda>_. ?E) 29500 example_args))"
      using body by (cases "test_llama_body (\<lambda>_. ?E) 29500 example_args") simp
    with t show "test_llama ?Es ?ports example_args
            = Some (Inl ?e, snd (test_llama_body (\<lambda>_. ?E) 29500 example_args))"
      by simp
  qed
  have l1: "fst (for_range iters (timed_iteration layers_only_env (input_len example_args))
          (init_state\<lparr>trace := [Disable_existing_loggers, Launch 0 1 29500]
                                 @ setup_events example_args\<rparr>)) = Inr ()"
    by (simp add: example_input_len layers_only_loop)
  have l2: "print_perf_stats (replicate iters (1 / 128)) (model_config layers_only_env)
         (batch_size example_args) warmup_default
       = ([], Some (AttributeError ''num_hidden_layers''))"
    by (simp only: layers_only_model example_batch_size layers_only_samples)
  from l1 l2 worker address_in_use_body [of 29500] t m show ?thesis
    by blast
qed

end
